theory Spec2Isabelle
  imports Complex_Main "HOL-Library.Word"
begin

unbundle bit_operations_syntax

section \<open>Python values and exceptions\<close>

text \<open>
  The converter is a thin layer of Python around three collaborators: the storage client,
  the PDF library and the standard library's base64 codec. The request of the cloud
  handler is a JSON document, so its values are the JSON values of Python. The type
  parameter \<open>'f\<close> is Python's \<open>float\<close>: its arithmetic is not modelled, the
  operations the code applies to a float are parameters of the environment below.
  A \<open>str\<close> is a list of bytes; a character above 127 stands for a non-ASCII one.
  A dictionary is an association list read with \<open>map_of\<close>.
\<close>

type_synonym byte = "8 word"
type_synonym bytes = "8 word list"

text \<open>An exception: the name of its class (\<open>type(e).__name__\<close>) and \<open>str(e)\<close>.\<close>

datatype exn = Exn (etype: string) (emsg: string)

datatype 'f pyval =
    PNone
  | PBool bool
  | PInt int
  | PFloat 'f
  | PStr string
  | PList "'f pyval list"
  | PDict "(string \<times> 'f pyval) list"

fun py_type_name :: "'f pyval \<Rightarrow> string" where
  "py_type_name PNone = ''NoneType''"
| "py_type_name (PBool _) = ''bool''"
| "py_type_name (PInt _) = ''int''"
| "py_type_name (PFloat _) = ''float''"
| "py_type_name (PStr _) = ''str''"
| "py_type_name (PList _) = ''list''"
| "py_type_name (PDict _) = ''dict''"

definition quoted :: "string \<Rightarrow> string" where
  "quoted s = CHR 0x27 # s @ [CHR 0x27]"

text \<open>\<open>d.get(k, default)\<close>.\<close>

definition dict_get :: "(string \<times> 'f pyval) list \<Rightarrow> string \<Rightarrow> 'f pyval \<Rightarrow> 'f pyval" where
  "dict_get d k dflt = (case map_of d k of None \<Rightarrow> dflt | Some v \<Rightarrow> v)"

text \<open>\<open>str\<close> of an integer: decimal digits, with a sign when negative.\<close>

definition digit_char :: "nat \<Rightarrow> char" where
  "digit_char n = ''0123456789'' ! (n mod 10)"

fun str_nat :: "nat \<Rightarrow> string" where
  "str_nat n = (if n < 10 then [digit_char n] else str_nat (n div 10) @ [digit_char n])"

declare str_nat.simps [simp del]

definition str_int :: "int \<Rightarrow> string" where
  "str_int i = (if i < 0 then CHR ''-'' # str_nat (nat (- i)) else str_nat (nat i))"

section \<open>The base64 codec of the standard library\<close>

text \<open>
  \<open>base64.b64encode\<close> is \<open>binascii.b2a_base64\<close> without the final newline: three
  bytes become four characters of the alphabet, and a last group of one or two bytes is
  padded with \<open>=\<close>. The handler decodes the result as UTF-8, which maps each of these
  ASCII bytes to the character of the same code.
\<close>

definition table_b2a_base64 :: string where
  "table_b2a_base64 =
     ''ABCDEFGHIJKLMNOPQRSTUVWXYZabcdefghijklmnopqrstuvwxyz0123456789+/''"

definition b2a_char :: "byte \<Rightarrow> char" where
  "b2a_char v = table_b2a_base64 ! unat (v AND 0x3f)"

fun b64encode :: "bytes \<Rightarrow> string" where
  "b64encode [] = []"
| "b64encode [a] =
     [b2a_char (drop_bit 2 a), b2a_char (push_bit 4 (a AND 3)), CHR ''='', CHR ''='']"
| "b64encode [a, b] =
     [b2a_char (drop_bit 2 a), b2a_char (push_bit 4 (a AND 3) OR drop_bit 4 b),
      b2a_char (push_bit 2 (b AND 0xf)), CHR ''='']"
| "b64encode (a # b # c # rest) =
     [b2a_char (drop_bit 2 a), b2a_char (push_bit 4 (a AND 3) OR drop_bit 4 b),
      b2a_char (push_bit 2 (b AND 0xf) OR drop_bit 6 c), b2a_char (c AND 0x3f)]
     @ b64encode rest"

text \<open>
  \<open>base64.b64decode(s)\<close> with its default \<open>validate=False\<close>: a \<open>str\<close> must be
  ASCII, any other JSON value is not bytes-like; then \<open>binascii.a2b_base64\<close> runs in its
  lenient mode. That loop (of CPython 3.11 and later) skips every character outside the alphabet, collects the others
  four at a time (\<open>quad_pos\<close> is the position in the group, \<open>leftchar\<close> the bits carried
  over), stops at the padding that completes a group, and raises \<open>binascii.Error\<close> when
  the input ends inside a group.
\<close>

fun index_of :: "'a \<Rightarrow> 'a list \<Rightarrow> nat option" where
  "index_of x [] = None"
| "index_of x (y # ys) = (if x = y then Some 0 else map_option Suc (index_of x ys))"

definition a2b_val :: "char \<Rightarrow> byte option" where
  "a2b_val c = map_option of_nat (index_of c table_b2a_base64)"

fun a2b_loop :: "string \<Rightarrow> nat \<Rightarrow> byte \<Rightarrow> nat \<Rightarrow> bytes \<Rightarrow> exn + bytes" where
  "a2b_loop [] quad_pos leftchar pads out =
     (if quad_pos \<noteq> 0 then
        (if quad_pos = 1 then
           Inl (Exn ''Error''
             (''Invalid base64-encoded string: number of data characters (''
               @ str_nat (length out div 3 * 4 + 1)
               @ '') cannot be 1 more than a multiple of 4''))
         else Inl (Exn ''Error'' ''Incorrect padding''))
      else Inr out)"
| "a2b_loop (c # cs) quad_pos leftchar pads out =
     (if c = CHR ''='' then
        (if quad_pos \<ge> 2 \<and> quad_pos + (pads + 1) \<ge> 4 then Inr out
         else a2b_loop cs quad_pos leftchar (if quad_pos \<ge> 2 then pads + 1 else pads) out)
      else
        (case a2b_val c of
           None \<Rightarrow> a2b_loop cs quad_pos leftchar pads out
         | Some this_ch \<Rightarrow>
             (if quad_pos = 0 then a2b_loop cs 1 this_ch 0 out
              else if quad_pos = 1 then
                a2b_loop cs 2 (this_ch AND 0x0f) 0
                  (out @ [push_bit 2 leftchar OR drop_bit 4 this_ch])
              else if quad_pos = 2 then
                a2b_loop cs 3 (this_ch AND 0x03) 0
                  (out @ [push_bit 4 leftchar OR drop_bit 2 this_ch])
              else
                a2b_loop cs 0 0 0 (out @ [push_bit 6 leftchar OR this_ch]))))"

definition a2b_base64 :: "string \<Rightarrow> exn + bytes" where
  "a2b_base64 s = a2b_loop s 0 0 0 []"

definition is_ascii :: "char \<Rightarrow> bool" where
  "is_ascii c = ((of_char c :: nat) < 128)"

definition b64decode :: "'f pyval \<Rightarrow> exn + bytes" where
  "b64decode s =
     (case s of
        PStr cs \<Rightarrow>
          (if list_all is_ascii cs then a2b_base64 cs
           else Inl (Exn ''ValueError'' ''string argument should contain only ASCII characters''))
      | _ \<Rightarrow>
          Inl (Exn ''TypeError''
            (''argument should be a bytes-like object or ASCII string, not ''
              @ quoted (py_type_name s))))"

section \<open>The collaborators\<close>

text \<open>
  An object of the PDF library is the record of what the code reads from it and calls on
  it. Every call either returns or raises. \<open>tobytes\<close> takes the format name, \<open>save\<close>
  the path of the file to write, \<open>get_pixmap\<close> the two diagonal entries of the scaling
  matrix \<open>fitz.Matrix(zoom_x, zoom_y)\<close> and the alpha flag, \<open>load_page\<close> the index given
  to \<open>doc[...]\<close>.
\<close>

record pixmap =
  width :: int
  height :: int
  tobytes :: "string \<Rightarrow> exn + bytes"
  save :: "string \<Rightarrow> exn + unit"

record 'f page =
  get_pixmap :: "'f \<Rightarrow> 'f \<Rightarrow> bool \<Rightarrow> exn + pixmap"

record 'f document =
  page_count :: nat
  load_page :: "'f pyval \<Rightarrow> exn + 'f page"

text \<open>
  The environment: the storage read \<open>s3_client.get_object(...)['Body'].read()\<close>,
  \<open>fitz.open\<close> on a byte stream with a file type and on a path, Python's \<open>int(...)\<close>
  on a command-line argument, and the float operations the code can reach: comparison
  with an integer, subtraction of an integer, division by an integer, the true division
  of two integers (which raises \<open>OverflowError\<close> when the quotient is too large for a
  float), and \<open>str\<close>.
\<close>

record 'f env =
  s3_get_object :: "'f pyval \<Rightarrow> 'f pyval \<Rightarrow> exn + bytes"
  fitz_open_stream :: "bytes \<Rightarrow> string \<Rightarrow> exn + 'f document"
  fitz_open_file :: "string \<Rightarrow> exn + 'f document"
  int_of_str :: "string \<Rightarrow> exn + int"
  float_lt_int :: "'f \<Rightarrow> int \<Rightarrow> bool"
  float_gt_int :: "'f \<Rightarrow> int \<Rightarrow> bool"
  float_sub_int :: "'f \<Rightarrow> int \<Rightarrow> 'f"
  float_div_int :: "'f \<Rightarrow> int \<Rightarrow> 'f"
  int_truediv :: "int \<Rightarrow> int \<Rightarrow> exn + 'f"
  float_str :: "'f \<Rightarrow> string"

text \<open>
  The log of a run: every call made to a collaborator, in order, with its arguments and
  what it returned or raised.
\<close>

datatype 'f effect =
    S3GetObject "'f pyval" "'f pyval" "exn + bytes"
  | FitzOpen bytes string "exn + 'f document"
  | FitzOpenFile string "exn + 'f document"
  | LoadPage "'f pyval" "exn + 'f page"
  | GetPixmap 'f 'f bool "exn + pixmap"
  | ToBytes string "exn + bytes"
  | PixSave string "exn + unit"
  | DocClose


section \<open>Numbers in a request\<close>

text \<open>
  \<open>pageNumber\<close> and \<open>dpi\<close> arrive as any JSON value. The operators \<open><\<close>, \<open>>\<close>,
  \<open>-\<close> and \<open>/\<close> with an \<open>int\<close> on the right are defined for \<open>bool\<close>, \<open>int\<close> and
  \<open>float\<close> and raise \<open>TypeError\<close> for every other JSON value.
\<close>

datatype 'f number = NumBool bool | NumInt int | NumFloat 'f

fun as_number :: "'f pyval \<Rightarrow> 'f number option" where
  "as_number (PBool b) = Some (NumBool b)"
| "as_number (PInt i) = Some (NumInt i)"
| "as_number (PFloat f) = Some (NumFloat f)"
| "as_number _ = None"

fun num_lt :: "'f env \<Rightarrow> 'f number \<Rightarrow> int \<Rightarrow> bool" where
  "num_lt env (NumBool b) n = ((if b then 1 else 0) < n)"
| "num_lt env (NumInt i) n = (i < n)"
| "num_lt env (NumFloat f) n = float_lt_int env f n"

fun num_gt :: "'f env \<Rightarrow> 'f number \<Rightarrow> int \<Rightarrow> bool" where
  "num_gt env (NumBool b) n = ((if b then 1 else 0) > n)"
| "num_gt env (NumInt i) n = (i > n)"
| "num_gt env (NumFloat f) n = float_gt_int env f n"

fun num_sub :: "'f env \<Rightarrow> 'f number \<Rightarrow> int \<Rightarrow> 'f pyval" where
  "num_sub env (NumBool b) n = PInt ((if b then 1 else 0) - n)"
| "num_sub env (NumInt i) n = PInt (i - n)"
| "num_sub env (NumFloat f) n = PFloat (float_sub_int env f n)"

fun num_truediv :: "'f env \<Rightarrow> 'f number \<Rightarrow> int \<Rightarrow> exn + 'f" where
  "num_truediv env (NumBool b) n = int_truediv env (if b then 1 else 0) n"
| "num_truediv env (NumInt i) n = int_truediv env i n"
| "num_truediv env (NumFloat f) n = Inr (float_div_int env f n)"

fun num_str :: "'f env \<Rightarrow> 'f number \<Rightarrow> string" where
  "num_str env (NumBool b) = (if b then ''True'' else ''False'')"
| "num_str env (NumInt i) = str_int i"
| "num_str env (NumFloat f) = float_str env f"

definition compare_type_error :: "string \<Rightarrow> 'f pyval \<Rightarrow> exn" where
  "compare_type_error opr v =
     Exn ''TypeError''
       (quoted opr @ '' not supported between instances of '' @ quoted (py_type_name v)
         @ '' and '' @ quoted ''int'')"

definition operand_type_error :: "string \<Rightarrow> 'f pyval \<Rightarrow> exn" where
  "operand_type_error opr v =
     Exn ''TypeError''
       (''unsupported operand type(s) for '' @ opr @ '': '' @ quoted (py_type_name v)
         @ '' and '' @ quoted ''int'')"

text \<open>\<open>dpi / 72\<close> on a JSON value.\<close>

definition py_truediv :: "'f env \<Rightarrow> 'f pyval \<Rightarrow> int \<Rightarrow> exn + 'f" where
  "py_truediv env v n =
     (case as_number v of
        None \<Rightarrow> Inl (operand_type_error ''/'' v)
      | Some x \<Rightarrow> num_truediv env x n)"

section \<open>The cloud handler (\<open>lambda_function.py\<close>)\<close>

record 'f response =
  statusCode :: int
  body :: "(string \<times> 'f pyval) list"

text \<open>
  \<open>body\<close> is the dictionary handed to \<open>json.dumps\<close>, with its keys in the order of the
  source. The progress lines printed on the way are left out.
\<close>

definition invalid_page_message :: "string \<Rightarrow> nat \<Rightarrow> string" where
  "invalid_page_message p n =
     ''Invalid page number: '' @ p @ ''. PDF has '' @ str_nat n @ '' pages.''"

definition missing_source_response :: "'f response" where
  "missing_source_response =
     \<lparr>statusCode = 400,
      body = [(''error'', PStr ''s3Bucket+s3Key or pdfBase64 is required'')]\<rparr>"

definition invalid_page_response :: "string \<Rightarrow> nat \<Rightarrow> 'f response" where
  "invalid_page_response p n =
     \<lparr>statusCode = 400, body = [(''error'', PStr (invalid_page_message p n))]\<rparr>"

definition error_response :: "exn \<Rightarrow> 'f response" where
  "error_response e =
     \<lparr>statusCode = 500, body = [(''error'', PStr (emsg e)), (''type'', PStr (etype e))]\<rparr>"

text \<open>
  Lines 47 to 65, the source of the PDF bytes. The three ways out of the block: an
  exception, the early \<open>return\<close> of the 400 response, or the bytes. The test
  \<open>'s3Bucket' in event and 's3Key' in event\<close> followed by the two subscripts is a lookup
  of both keys that finds them.
\<close>

datatype 'f source = Raised exn | Returned "'f response" | Got bytes

definition get_pdf_bytes ::
  "'f env \<Rightarrow> (string \<times> 'f pyval) list \<Rightarrow> 'f effect list \<times> 'f source" where
  "get_pdf_bytes env event =
     (case (map_of event ''s3Bucket'', map_of event ''s3Key'') of
        (Some s3_bucket, Some s3_key) \<Rightarrow>
          (let response = s3_get_object env s3_bucket s3_key in
           ([S3GetObject s3_bucket s3_key response],
            case response of Inl e \<Rightarrow> Raised e | Inr pdf_bytes \<Rightarrow> Got pdf_bytes))
      | _ \<Rightarrow>
          (case map_of event ''pdfBase64'' of
             Some s \<Rightarrow>
               ([], case b64decode s of Inl e \<Rightarrow> Raised e | Inr pdf_bytes \<Rightarrow> Got pdf_bytes)
           | None \<Rightarrow> ([], Returned missing_source_response)))"

text \<open>
  Lines 67 to 113: open the document, validate the page number, render, encode, close,
  respond. The 400 response for a page out of range leaves the document open, as the
  source does.
\<close>

definition render_page ::
  "'f env \<Rightarrow> bytes \<Rightarrow> 'f pyval \<Rightarrow> 'f pyval \<Rightarrow> 'f effect list \<times> (exn + 'f response)" where
  "render_page env pdf_bytes page_number dpi =
     (let r_doc = fitz_open_stream env pdf_bytes ''pdf'';
          t1 = [FitzOpen pdf_bytes ''pdf'' r_doc] in
      case r_doc of
        Inl e \<Rightarrow> (t1, Inl e)
      | Inr doc \<Rightarrow>
          (case as_number page_number of
             None \<Rightarrow> (t1, Inl (compare_type_error ''<'' page_number))
           | Some p \<Rightarrow>
               if num_lt env p 1 \<or> num_gt env p (int (page_count doc)) then
                 (t1, Inr (invalid_page_response (num_str env p) (page_count doc)))
               else
                 (let idx = num_sub env p 1;
                      r_page = load_page doc idx;
                      t2 = t1 @ [LoadPage idx r_page] in
                  case r_page of
                    Inl e \<Rightarrow> (t2, Inl e)
                  | Inr page \<Rightarrow>
                      (case py_truediv env dpi 72 of
                         Inl e \<Rightarrow> (t2, Inl e)
                       | Inr zoom \<Rightarrow>
                           (let r_pix = get_pixmap page zoom zoom False;
                                t3 = t2 @ [GetPixmap zoom zoom False r_pix] in
                            case r_pix of
                              Inl e \<Rightarrow> (t3, Inl e)
                            | Inr pix \<Rightarrow>
                                (let r_png = tobytes pix ''png'';
                                     t4 = t3 @ [ToBytes ''png'' r_png] in
                                 case r_png of
                                   Inl e \<Rightarrow> (t4, Inl e)
                                 | Inr png_bytes \<Rightarrow>
                                     (t4 @ [DocClose],
                                      Inr \<lparr>statusCode = 200,
                                           body =
                                             [(''imageBase64'', PStr (b64encode png_bytes)),
                                              (''width'', PInt (width pix)),
                                              (''height'', PInt (height pix)),
                                              (''size'', PInt (int (length png_bytes))),
                                              (''pageNumber'', page_number),
                                              (''dpi'', dpi)]\<rparr>)))))))"

text \<open>
  The body of the \<open>try\<close>. \<open>event.get\<close> exists on a dictionary only; on any other JSON
  value the attribute lookup raises.
\<close>

definition lambda_try :: "'f env \<Rightarrow> 'f pyval \<Rightarrow> 'f effect list \<times> (exn + 'f response)" where
  "lambda_try env event =
     (case event of
        PDict d \<Rightarrow>
          (let page_number = dict_get d ''pageNumber'' (PInt 1);
               dpi = dict_get d ''dpi'' (PInt 150) in
           case get_pdf_bytes env d of
             (t, Raised e) \<Rightarrow> (t, Inl e)
           | (t, Returned r) \<Rightarrow> (t, Inr r)
           | (t, Got pdf_bytes) \<Rightarrow>
               (case render_page env pdf_bytes page_number dpi of
                  (t', r) \<Rightarrow> (t @ t', r)))
      | _ \<Rightarrow>
          ([], Inl (Exn ''AttributeError''
                 (quoted (py_type_name event) @ '' object has no attribute '' @ quoted ''get''))))"

text \<open>The handler: \<open>except Exception as e\<close> turns what the body raised into the 500 response.\<close>

definition lambda_handler :: "'f env \<Rightarrow> 'f pyval \<Rightarrow> 'f effect list \<times> 'f response" where
  "lambda_handler env event =
     (case lambda_try env event of
        (t, Inl e) \<Rightarrow> (t, error_response e)
      | (t, Inr r) \<Rightarrow> (t, r))"

section \<open>The command-line tool (\<open>convert_pdf.py\<close>)\<close>

text \<open>
  The body of the \<open>try\<close> of \<open>convert_pdf_page_to_image\<close>, whose page number and
  resolution are integers.
\<close>

definition convert_try ::
  "'f env \<Rightarrow> string \<Rightarrow> int \<Rightarrow> string \<Rightarrow> int \<Rightarrow> 'f effect list \<times> (exn + unit)" where
  "convert_try env pdf_path page_number output_path dpi =
     (let r_doc = fitz_open_file env pdf_path;
          t1 = [FitzOpenFile pdf_path r_doc] in
      case r_doc of
        Inl e \<Rightarrow> (t1, Inl e)
      | Inr doc \<Rightarrow>
          if page_number < 1 \<or> page_number > int (page_count doc) then
            (t1, Inl (Exn ''ValueError''
                   (invalid_page_message (str_int page_number) (page_count doc))))
          else
            (let idx = PInt (page_number - 1);
                 r_page = load_page doc idx;
                 t2 = t1 @ [LoadPage idx r_page] in
             case r_page of
               Inl e \<Rightarrow> (t2, Inl e)
             | Inr page \<Rightarrow>
                 (case int_truediv env dpi 72 of
                    Inl e \<Rightarrow> (t2, Inl e)
                  | Inr zoom \<Rightarrow>
                      (let r_pix = get_pixmap page zoom zoom False;
                           t3 = t2 @ [GetPixmap zoom zoom False r_pix] in
                       case r_pix of
                         Inl e \<Rightarrow> (t3, Inl e)
                       | Inr pix \<Rightarrow>
                           (let r_save = save pix output_path;
                                t4 = t3 @ [PixSave output_path r_save] in
                            case r_save of
                              Inl e \<Rightarrow> (t4, Inl e)
                            | Inr _ \<Rightarrow> (t4 @ [DocClose], Inr ()))))))"

definition convert_pdf_page_to_image ::
  "'f env \<Rightarrow> string \<Rightarrow> int \<Rightarrow> string \<Rightarrow> int \<Rightarrow> 'f effect list \<times> int" where
  "convert_pdf_page_to_image env pdf_path page_number output_path dpi =
     (case convert_try env pdf_path page_number output_path dpi of
        (t, Inl e) \<Rightarrow> (t, 1)
      | (t, Inr _) \<Rightarrow> (t, 0))"

text \<open>
  The script: the log and the exit status of the process for an argument vector. An
  exception of \<open>int(...)\<close> is not caught, and the interpreter ends with status 1.
\<close>

definition main :: "'f env \<Rightarrow> string list \<Rightarrow> 'f effect list \<times> int" where
  "main env argv =
     (if length argv < 4 then ([], 1)
      else
        (case int_of_str env (argv ! 2) of
           Inl e \<Rightarrow> ([], 1)
         | Inr page_number \<Rightarrow>
             (case (if length argv > 4 then int_of_str env (argv ! 4) else Inr 150) of
                Inl e \<Rightarrow> ([], 1)
              | Inr dpi \<Rightarrow>
                  convert_pdf_page_to_image env (argv ! 1) page_number (argv ! 3) dpi)))"

section \<open>A sample environment\<close>

text \<open>
  A storage bucket with one object, a PDF of two pages of 612 by 792 points, and exact
  rational numbers in the place of floats. It is the concrete input at which the
  properties below are exercised.
\<close>

definition sample_pdf :: bytes where
  "sample_pdf = [0x25, 0x50, 0x44, 0x46]"

definition sample_png :: bytes where
  "sample_png = [0x89, 0x50, 0x4E, 0x47, 0x0D]"

definition sample_pixmap :: "rat \<Rightarrow> rat \<Rightarrow> pixmap" where
  "sample_pixmap zx zy =
     \<lparr>width = \<lfloor>612 * zx\<rfloor>, height = \<lfloor>792 * zy\<rfloor>,
      tobytes = (\<lambda>fmt. if fmt = ''png'' then Inr sample_png
                        else Inl (Exn ''ValueError'' ''unknown format'')),
      save = (\<lambda>path. if path = ''out.png'' then Inr ()
                      else Inl (Exn ''RuntimeError'' ''cannot write''))\<rparr>"

definition sample_page :: "rat page" where
  "sample_page = \<lparr>get_pixmap = (\<lambda>zx zy alpha. Inr (sample_pixmap zx zy))\<rparr>"

definition sample_doc :: "rat document" where
  "sample_doc =
     \<lparr>page_count = 2,
      load_page = (\<lambda>i. if i = PInt 0 \<or> i = PInt 1 then Inr sample_page
                       else Inl (Exn ''IndexError'' ''page not in document''))\<rparr>"

definition sample_env :: "rat env" where
  "sample_env =
     \<lparr>s3_get_object = (\<lambda>b k. if b = PStr ''docs'' \<and> k = PStr ''report.pdf'' then Inr sample_pdf
                             else Inl (Exn ''NoSuchKey'' ''The specified key does not exist.'')),
      fitz_open_stream = (\<lambda>bs ft. if bs = sample_pdf then Inr sample_doc
                             else Inl (Exn ''FileDataError'' ''Failed to open stream'')),
      fitz_open_file = (\<lambda>p. if p = ''report.pdf'' then Inr sample_doc
                             else Inl (Exn ''FileNotFoundError'' ''no such file'')),
      int_of_str = (\<lambda>s. if s = ''1'' then Inr 1 else if s = ''5'' then Inr 5
                         else if s = ''300'' then Inr 300
                         else Inl (Exn ''ValueError'' ''invalid literal for int() with base 10'')),
      float_lt_int = (\<lambda>f n. f < of_int n),
      float_gt_int = (\<lambda>f n. f > of_int n),
      float_sub_int = (\<lambda>f n. f - of_int n),
      float_div_int = (\<lambda>f n. f / of_int n),
      int_truediv = (\<lambda>a b. Inr (of_int a / of_int b)),
      float_str = (\<lambda>f. ''float'')\<rparr>"

lemmas sample_defs =
  sample_pdf_def sample_png_def sample_pixmap_def sample_page_def sample_doc_def
  sample_env_def

section \<open>The codec round trip\<close>

lemma index_of_nth:
  "distinct xs \<Longrightarrow> n < length xs \<Longrightarrow> index_of (xs ! n) xs = Some n"
proof (induction xs arbitrary: n)
  case Nil
  then show ?case by simp
next
  case (Cons y ys)
  then show ?case by (cases n) auto
qed

lemma distinct_table: "distinct table_b2a_base64"
  unfolding table_b2a_base64_def by simp

lemma length_table: "length table_b2a_base64 = 64"
  unfolding table_b2a_base64_def by simp

lemma sextet_less: "unat ((v::byte) AND 0x3f) < 64"
proof -
  have "unat (v AND 0x3f) \<le> unat (0x3f :: byte)"
    by (rule word_and_le1 [THEN word_le_nat_alt [THEN iffD1]])
  then show ?thesis by simp
qed

lemma a2b_val_b2a_char: "a2b_val (b2a_char v) = Some (v AND 0x3f)"
  unfolding a2b_val_def b2a_char_def
  using sextet_less [of v]
  by (simp add: index_of_nth distinct_table length_table)

lemma table_ascii: "list_all is_ascii table_b2a_base64"
  unfolding table_b2a_base64_def is_ascii_def by simp

lemma table_no_pad: "CHR ''='' \<notin> set table_b2a_base64"
  unfolding table_b2a_base64_def by simp

lemma b2a_char_in_table: "b2a_char v \<in> set table_b2a_base64"
  unfolding b2a_char_def using sextet_less [of v] by (simp add: length_table)

lemma b2a_char_ascii: "is_ascii (b2a_char v)"
  using table_ascii b2a_char_in_table [of v] by (simp add: list_all_iff)

lemma b2a_char_not_pad: "b2a_char v \<noteq> CHR ''=''"
  using table_no_pad b2a_char_in_table [of v] by metis

lemma and3: "(a::byte) AND 3 = take_bit 2 a"
  by (simp add: take_bit_eq_mask mask_eq_exp_minus_1)

lemma and15: "(a::byte) AND 0xf = take_bit 4 a"
  by (simp add: take_bit_eq_mask mask_eq_exp_minus_1)

lemma and63: "(a::byte) AND 0x3f = take_bit 6 a"
  by (simp add: take_bit_eq_mask mask_eq_exp_minus_1)

lemma no_high_bit: "\<not> bit (b::byte) (8 + n)"
  by (auto dest: bit_imp_le_length)

lemma Suc_Suc_diff2: "2 \<le> n \<Longrightarrow> Suc (Suc (n - 2)) = n"
  by simp

lemma byte1:
  "push_bit 2 (drop_bit 2 a AND 0x3f)
     OR drop_bit 4 ((push_bit 4 (a AND 3) OR drop_bit 4 b) AND 0x3f) = (a::byte)"
  unfolding and3 and15 and63
  apply (rule bit_word_eqI)
  apply (auto simp: bit_simps no_high_bit not_less Suc_Suc_diff2)
  apply (rule ccontr, simp add: not_less Suc_Suc_diff2)+
  done

lemma byte1_last:
  "push_bit 2 (drop_bit 2 a AND 0x3f) OR drop_bit 4 (push_bit 4 (a AND 3) AND 0x3f) = (a::byte)"
  using byte1 [of a 0] by simp

lemma byte2:
  "push_bit 4 (((push_bit 4 (a AND 3) OR drop_bit 4 b) AND 0x3f) AND 0xf)
     OR drop_bit 2 ((push_bit 2 (b AND 0xf) OR drop_bit 6 c) AND 0x3f) = (b::byte)"
  unfolding and3 and15 and63
  apply (rule bit_word_eqI)
  apply (auto simp: bit_simps no_high_bit not_less Suc_Suc_diff2)
  apply (rule ccontr, simp add: not_less Suc_Suc_diff2)+
  done

lemma byte2_last:
  "push_bit 4 (((push_bit 4 (a AND 3) OR drop_bit 4 b) AND 0x3f) AND 0xf)
     OR drop_bit 2 (push_bit 2 (b AND 0xf) AND 0x3f) = (b::byte)"
  using byte2 [of a b 0] by simp

lemma byte3:
  "push_bit 6 (((push_bit 2 (b AND 0xf) OR drop_bit 6 c) AND 0x3f) AND 3)
     OR ((c AND 0x3f) AND 0x3f) = (c::byte)"
  unfolding and3 and15 and63
  by (rule bit_word_eqI) (auto simp: bit_simps no_high_bit not_less)

text \<open>The loop on the characters of one group, the sextets kept abstract.\<close>

lemma a2b_loop_pair:
  "a2b_loop (b2a_char v1 # b2a_char v2 # cs) 0 leftchar pads out =
     a2b_loop cs 2 ((v2 AND 0x3f) AND 0x0f) 0
       (out @ [push_bit 2 (v1 AND 0x3f) OR drop_bit 4 (v2 AND 0x3f)])"
  by (simp only: a2b_loop.simps a2b_val_b2a_char b2a_char_not_pad if_False option.case
        refl if_True One_nat_def nat.simps)

lemma a2b_loop_third:
  "a2b_loop (b2a_char v3 # cs) 2 leftchar pads out =
     a2b_loop cs 3 ((v3 AND 0x3f) AND 0x03) 0
       (out @ [push_bit 4 leftchar OR drop_bit 2 (v3 AND 0x3f)])"
  by (simp add: a2b_val_b2a_char b2a_char_not_pad del: push_bit_and)

lemma a2b_loop_fourth:
  "a2b_loop (b2a_char v4 # cs) 3 leftchar pads out =
     a2b_loop cs 0 0 0 (out @ [push_bit 6 leftchar OR (v4 AND 0x3f)])"
  by (simp add: a2b_val_b2a_char b2a_char_not_pad)

lemma a2b_loop_pad2: "a2b_loop (CHR ''='' # CHR ''='' # cs) 2 leftchar 0 out = Inr out"
  by simp

lemma a2b_loop_pad1: "a2b_loop (CHR ''='' # cs) 3 leftchar 0 out = Inr out"
  by simp

lemma a2b_loop_b64encode:
  "a2b_loop (b64encode bs) 0 leftchar pads out = Inr (out @ bs)"
proof (induction bs arbitrary: leftchar pads out rule: b64encode.induct)
  case 1
  show ?case by simp
next
  case (2 a)
  show ?case
    by (simp only: b64encode.simps a2b_loop_pair a2b_loop_pad2 byte1_last)
next
  case (3 a b)
  show ?case
    by (simp only: b64encode.simps a2b_loop_pair a2b_loop_third a2b_loop_pad1 byte1
          byte2_last append_assoc append_Cons append_Nil)
next
  case (4 a b c rest)
  show ?case
    by (simp only: b64encode.simps a2b_loop_pair a2b_loop_third a2b_loop_fourth byte1
          byte2 byte3 append_assoc append_Cons append_Nil "4.IH")
qed

lemma pad_ascii: "is_ascii (CHR ''='')"
  by (simp add: is_ascii_def)

lemma b64encode_ascii: "list_all is_ascii (b64encode bs)"
  by (induction bs rule: b64encode.induct) (simp_all add: b2a_char_ascii pad_ascii)

lemma b64decode_b64encode: "b64decode (PStr (b64encode bs)) = Inr bs"
  by (simp add: b64decode_def b64encode_ascii a2b_base64_def a2b_loop_b64encode)


section \<open>Shape of the handler\<close>

lemma get_pdf_bytes_log:
  "get_pdf_bytes env d = (t, s) \<Longrightarrow>
     t = [] \<or> (\<exists>b k. map_of d ''s3Bucket'' = Some b \<and> map_of d ''s3Key'' = Some k \<and>
                 t = [S3GetObject b k (s3_get_object env b k)])"
  by (auto simp: get_pdf_bytes_def Let_def split: option.splits)

lemma lambda_handler_Raised:
  "get_pdf_bytes env d = (t, Raised e) \<Longrightarrow> lambda_handler env (PDict d) = (t, error_response e)"
  by (simp add: lambda_handler_def lambda_try_def)

lemma lambda_handler_Returned:
  "get_pdf_bytes env d = (t, Returned r) \<Longrightarrow> lambda_handler env (PDict d) = (t, r)"
  by (simp add: lambda_handler_def lambda_try_def)

lemma lambda_handler_Got:
  "get_pdf_bytes env d = (t, Got pdf_bytes) \<Longrightarrow>
   render_page env pdf_bytes (dict_get d ''pageNumber'' (PInt 1)) (dict_get d ''dpi'' (PInt 150))
     = (t', r) \<Longrightarrow>
   lambda_handler env (PDict d) =
     (t @ t', case r of Inl e \<Rightarrow> error_response e | Inr resp \<Rightarrow> resp)"
  by (simp add: lambda_handler_def lambda_try_def split: sum.splits)

lemma lambda_handler_not_dict:
  "(\<forall>d. event \<noteq> PDict d) \<Longrightarrow>
   lambda_handler env event =
     ([], error_response (Exn ''AttributeError''
            (quoted (py_type_name event) @ '' object has no attribute '' @ quoted ''get'')))"
  by (cases event) (simp_all add: lambda_handler_def lambda_try_def)

text \<open>The runs of \<open>render_page\<close>, one rule for each way out.\<close>

lemma render_page_cases:
  assumes "render_page env pdf_bytes page_number dpi = (t, r)"
  obtains
    (open_failed) e where
      "fitz_open_stream env pdf_bytes ''pdf'' = Inl e"
      "t = [FitzOpen pdf_bytes ''pdf'' (Inl e)]" "r = Inl e"
  | (not_a_number) doc where
      "fitz_open_stream env pdf_bytes ''pdf'' = Inr doc" "as_number page_number = None"
      "t = [FitzOpen pdf_bytes ''pdf'' (Inr doc)]"
      "r = Inl (compare_type_error ''<'' page_number)"
  | (out_of_range) doc p where
      "fitz_open_stream env pdf_bytes ''pdf'' = Inr doc" "as_number page_number = Some p"
      "num_lt env p 1 \<or> num_gt env p (int (page_count doc))"
      "t = [FitzOpen pdf_bytes ''pdf'' (Inr doc)]"
      "r = Inr (invalid_page_response (num_str env p) (page_count doc))"
  | (load_failed) doc p e where
      "fitz_open_stream env pdf_bytes ''pdf'' = Inr doc" "as_number page_number = Some p"
      "\<not> num_lt env p 1" "\<not> num_gt env p (int (page_count doc))"
      "load_page doc (num_sub env p 1) = Inl e"
      "t = [FitzOpen pdf_bytes ''pdf'' (Inr doc), LoadPage (num_sub env p 1) (Inl e)]"
      "r = Inl e"
  | (zoom_failed) doc p page e where
      "fitz_open_stream env pdf_bytes ''pdf'' = Inr doc" "as_number page_number = Some p"
      "\<not> num_lt env p 1" "\<not> num_gt env p (int (page_count doc))"
      "load_page doc (num_sub env p 1) = Inr page"
      "py_truediv env dpi 72 = Inl e"
      "t = [FitzOpen pdf_bytes ''pdf'' (Inr doc), LoadPage (num_sub env p 1) (Inr page)]"
      "r = Inl e"
  | (render_failed) doc p page zoom e where
      "fitz_open_stream env pdf_bytes ''pdf'' = Inr doc" "as_number page_number = Some p"
      "\<not> num_lt env p 1" "\<not> num_gt env p (int (page_count doc))"
      "load_page doc (num_sub env p 1) = Inr page"
      "py_truediv env dpi 72 = Inr zoom"
      "get_pixmap page zoom zoom False = Inl e"
      "t = [FitzOpen pdf_bytes ''pdf'' (Inr doc), LoadPage (num_sub env p 1) (Inr page),
            GetPixmap zoom zoom False (Inl e)]"
      "r = Inl e"
  | (encode_failed) doc p page zoom pix e where
      "fitz_open_stream env pdf_bytes ''pdf'' = Inr doc" "as_number page_number = Some p"
      "\<not> num_lt env p 1" "\<not> num_gt env p (int (page_count doc))"
      "load_page doc (num_sub env p 1) = Inr page"
      "py_truediv env dpi 72 = Inr zoom"
      "get_pixmap page zoom zoom False = Inr pix"
      "tobytes pix ''png'' = Inl e"
      "t = [FitzOpen pdf_bytes ''pdf'' (Inr doc), LoadPage (num_sub env p 1) (Inr page),
            GetPixmap zoom zoom False (Inr pix), ToBytes ''png'' (Inl e)]"
      "r = Inl e"
  | (converted) doc p page zoom pix png_bytes where
      "fitz_open_stream env pdf_bytes ''pdf'' = Inr doc" "as_number page_number = Some p"
      "\<not> num_lt env p 1" "\<not> num_gt env p (int (page_count doc))"
      "load_page doc (num_sub env p 1) = Inr page"
      "py_truediv env dpi 72 = Inr zoom"
      "get_pixmap page zoom zoom False = Inr pix"
      "tobytes pix ''png'' = Inr png_bytes"
      "t = [FitzOpen pdf_bytes ''pdf'' (Inr doc), LoadPage (num_sub env p 1) (Inr page),
            GetPixmap zoom zoom False (Inr pix), ToBytes ''png'' (Inr png_bytes), DocClose]"
      "r = Inr \<lparr>statusCode = 200,
                body = [(''imageBase64'', PStr (b64encode png_bytes)),
                        (''width'', PInt (width pix)), (''height'', PInt (height pix)),
                        (''size'', PInt (int (length png_bytes))),
                        (''pageNumber'', page_number), (''dpi'', dpi)]\<rparr>"
  using assms unfolding render_page_def Let_def
  by (auto split: sum.splits option.splits if_splits)


lemma get_pdf_bytes_no_render:
  assumes "get_pdf_bytes env d = (t, s)"
  shows "LoadPage i x \<notin> set t" "GetPixmap zx zy a y \<notin> set t" "ToBytes fmt z \<notin> set t"
        "FitzOpen bs ft w \<notin> set t"
  using get_pdf_bytes_log [OF assms] by auto

lemmas eval_defs =
  lambda_handler_def lambda_try_def get_pdf_bytes_def render_page_def dict_get_def
  b64decode_def a2b_base64_def is_ascii_def a2b_val_def table_b2a_base64_def b2a_char_def
  py_truediv_def invalid_page_response_def invalid_page_message_def
  missing_source_response_def error_response_def
  str_int_def str_nat.simps digit_char_def
  convert_try_def convert_pdf_page_to_image_def main_def

lemma get_pdf_bytes_cases:
  assumes "get_pdf_bytes env d = (t, s)"
  obtains
    (fetch_failed) b k e where
      "map_of d ''s3Bucket'' = Some b" "map_of d ''s3Key'' = Some k"
      "s3_get_object env b k = Inl e" "t = [S3GetObject b k (Inl e)]" "s = Raised e"
  | (fetched) b k pdf_bytes where
      "map_of d ''s3Bucket'' = Some b" "map_of d ''s3Key'' = Some k"
      "s3_get_object env b k = Inr pdf_bytes" "t = [S3GetObject b k (Inr pdf_bytes)]"
      "s = Got pdf_bytes"
  | (decode_failed) v e where
      "map_of d ''s3Bucket'' = None \<or> map_of d ''s3Key'' = None"
      "map_of d ''pdfBase64'' = Some v" "b64decode v = Inl e" "t = []" "s = Raised e"
  | (decoded) v pdf_bytes where
      "map_of d ''s3Bucket'' = None \<or> map_of d ''s3Key'' = None"
      "map_of d ''pdfBase64'' = Some v" "b64decode v = Inr pdf_bytes" "t = []"
      "s = Got pdf_bytes"
  | (missing)
      "map_of d ''s3Bucket'' = None \<or> map_of d ''s3Key'' = None"
      "map_of d ''pdfBase64'' = None" "t = []" "s = Returned missing_source_response"
  using assms unfolding get_pdf_bytes_def Let_def
  by (auto split: option.splits sum.splits)

lemma lambda_handler_cases:
  assumes "lambda_handler env event = (t, r)"
  obtains
    (not_dict) "\<forall>d. event \<noteq> PDict d" "t = []"
      "r = error_response (Exn ''AttributeError''
             (quoted (py_type_name event) @ '' object has no attribute '' @ quoted ''get''))"
  | (source_raised) d e where
      "event = PDict d" "get_pdf_bytes env d = (t, Raised e)" "r = error_response e"
  | (source_missing) d where
      "event = PDict d" "get_pdf_bytes env d = (t, Returned r)"
  | (rendering) d t1 pdf_bytes t2 res where
      "event = PDict d" "get_pdf_bytes env d = (t1, Got pdf_bytes)"
      "render_page env pdf_bytes (dict_get d ''pageNumber'' (PInt 1))
         (dict_get d ''dpi'' (PInt 150)) = (t2, res)"
      "t = t1 @ t2" "r = (case res of Inl e \<Rightarrow> error_response e | Inr resp \<Rightarrow> resp)"
proof (cases "\<exists>d. event = PDict d")
  case False
  then have nd: "\<forall>d. event \<noteq> PDict d" by simp
  show ?thesis
    using not_dict [OF nd] assms lambda_handler_not_dict [OF nd, of env] by simp
next
  case True
  then obtain d where ev: "event = PDict d" by blast
  obtain t1 s where g: "get_pdf_bytes env d = (t1, s)" by (cases "get_pdf_bytes env d")
  show ?thesis
  proof (cases s)
    case (Raised e)
    with g assms ev lambda_handler_Raised [of env d t1 e] source_raised [of d e]
    show ?thesis by simp
  next
    case (Returned r')
    with g assms ev lambda_handler_Returned [of env d t1 r'] source_missing [of d]
    show ?thesis by simp
  next
    case (Got pdf_bytes)
    obtain t2 res where
      rp: "render_page env pdf_bytes (dict_get d ''pageNumber'' (PInt 1))
             (dict_get d ''dpi'' (PInt 150)) = (t2, res)"
      by (cases "render_page env pdf_bytes (dict_get d ''pageNumber'' (PInt 1))
             (dict_get d ''dpi'' (PInt 150))")
    from g Got have g': "get_pdf_bytes env d = (t1, Got pdf_bytes)" by simp
    from lambda_handler_Got [OF g' rp] assms ev
    have "t = t1 @ t2" "r = (case res of Inl e \<Rightarrow> error_response e | Inr resp \<Rightarrow> resp)"
      by simp_all
    with rendering [OF ev g' rp] show ?thesis by simp
  qed
qed

lemma get_pdf_bytes_Returned:
  "get_pdf_bytes env d = (t, Returned r) \<Longrightarrow> t = [] \<and> r = missing_source_response"
  by (erule get_pdf_bytes_cases) simp_all

text \<open>What a run that answers 200 looks like.\<close>

lemma render_page_200:
  assumes "render_page env pdf_bytes page_number dpi = (t, res)"
      and "statusCode (case res of Inl e \<Rightarrow> error_response e | Inr resp \<Rightarrow> resp) = 200"
  obtains doc p page zoom pix png_bytes where
      "fitz_open_stream env pdf_bytes ''pdf'' = Inr doc" "as_number page_number = Some p"
      "\<not> num_lt env p 1" "\<not> num_gt env p (int (page_count doc))"
      "load_page doc (num_sub env p 1) = Inr page"
      "py_truediv env dpi 72 = Inr zoom"
      "get_pixmap page zoom zoom False = Inr pix"
      "tobytes pix ''png'' = Inr png_bytes"
      "t = [FitzOpen pdf_bytes ''pdf'' (Inr doc), LoadPage (num_sub env p 1) (Inr page),
            GetPixmap zoom zoom False (Inr pix), ToBytes ''png'' (Inr png_bytes), DocClose]"
      "res = Inr \<lparr>statusCode = 200,
                body = [(''imageBase64'', PStr (b64encode png_bytes)),
                        (''width'', PInt (width pix)), (''height'', PInt (height pix)),
                        (''size'', PInt (int (length png_bytes))),
                        (''pageNumber'', page_number), (''dpi'', dpi)]\<rparr>"
  using assms(1)
proof (cases rule: render_page_cases)
  case (converted doc p page zoom pix png_bytes)
  then show ?thesis using that by blast
qed (use assms(2) in \<open>simp_all add: error_response_def invalid_page_response_def\<close>)

lemma lambda_handler_200:
  assumes "lambda_handler env event = (t, r)" and "statusCode r = 200"
  obtains d t1 pdf_bytes doc p page zoom pix png_bytes where
      "event = PDict d" "get_pdf_bytes env d = (t1, Got pdf_bytes)"
      "fitz_open_stream env pdf_bytes ''pdf'' = Inr doc"
      "as_number (dict_get d ''pageNumber'' (PInt 1)) = Some p"
      "\<not> num_lt env p 1" "\<not> num_gt env p (int (page_count doc))"
      "load_page doc (num_sub env p 1) = Inr page"
      "py_truediv env (dict_get d ''dpi'' (PInt 150)) 72 = Inr zoom"
      "get_pixmap page zoom zoom False = Inr pix"
      "tobytes pix ''png'' = Inr png_bytes"
      "t = t1 @ [FitzOpen pdf_bytes ''pdf'' (Inr doc), LoadPage (num_sub env p 1) (Inr page),
            GetPixmap zoom zoom False (Inr pix), ToBytes ''png'' (Inr png_bytes), DocClose]"
      "r = \<lparr>statusCode = 200,
            body = [(''imageBase64'', PStr (b64encode png_bytes)),
                    (''width'', PInt (width pix)), (''height'', PInt (height pix)),
                    (''size'', PInt (int (length png_bytes))),
                    (''pageNumber'', dict_get d ''pageNumber'' (PInt 1)),
                    (''dpi'', dict_get d ''dpi'' (PInt 150))]\<rparr>"
  using assms(1)
proof (cases rule: lambda_handler_cases)
  case not_dict
  with assms(2) show ?thesis by (simp add: error_response_def)
next
  case (source_raised d e)
  with assms(2) show ?thesis by (simp add: error_response_def)
next
  case (source_missing d)
  with assms(2) get_pdf_bytes_Returned [of env d t r] show ?thesis
    by (simp add: missing_source_response_def)
next
  case (rendering d t1 pdf_bytes t2 res)
  from assms(2) rendering(5)
  have st: "statusCode (case res of Inl e \<Rightarrow> error_response e | Inr resp \<Rightarrow> resp) = 200"
    by simp
  from rendering(3) st show ?thesis
  proof (rule render_page_200)
    fix doc p page zoom pix png_bytes
    assume a: "fitz_open_stream env pdf_bytes ''pdf'' = Inr doc"
      "as_number (dict_get d ''pageNumber'' (PInt 1)) = Some p"
      "\<not> num_lt env p 1" "\<not> num_gt env p (int (page_count doc))"
      "load_page doc (num_sub env p 1) = Inr page"
      "py_truediv env (dict_get d ''dpi'' (PInt 150)) 72 = Inr zoom"
      "get_pixmap page zoom zoom False = Inr pix"
      "tobytes pix ''png'' = Inr png_bytes"
    and b: "t2 = [FitzOpen pdf_bytes ''pdf'' (Inr doc), LoadPage (num_sub env p 1) (Inr page),
            GetPixmap zoom zoom False (Inr pix), ToBytes ''png'' (Inr png_bytes), DocClose]"
      "res = Inr \<lparr>statusCode = 200,
                body = [(''imageBase64'', PStr (b64encode png_bytes)),
                        (''width'', PInt (width pix)), (''height'', PInt (height pix)),
                        (''size'', PInt (int (length png_bytes))),
                        (''pageNumber'', dict_get d ''pageNumber'' (PInt 1)),
                        (''dpi'', dict_get d ''dpi'' (PInt 150))]\<rparr>"
    show ?thesis
      using that [OF rendering(1,2) a] b rendering(4,5) by simp
  qed
qed


lemma convert_try_cases:
  assumes "convert_try env pdf_path page_number output_path dpi = (t, r)"
  obtains
    (open_failed) e where
      "fitz_open_file env pdf_path = Inl e" "t = [FitzOpenFile pdf_path (Inl e)]" "r = Inl e"
  | (out_of_range) doc where
      "fitz_open_file env pdf_path = Inr doc"
      "page_number < 1 \<or> page_number > int (page_count doc)"
      "t = [FitzOpenFile pdf_path (Inr doc)]"
      "r = Inl (Exn ''ValueError''
                  (invalid_page_message (str_int page_number) (page_count doc)))"
  | (load_failed) doc e where
      "fitz_open_file env pdf_path = Inr doc"
      "\<not> page_number < 1" "\<not> page_number > int (page_count doc)"
      "load_page doc (PInt (page_number - 1)) = Inl e"
      "t = [FitzOpenFile pdf_path (Inr doc), LoadPage (PInt (page_number - 1)) (Inl e)]"
      "r = Inl e"
  | (zoom_failed) doc page e where
      "fitz_open_file env pdf_path = Inr doc"
      "\<not> page_number < 1" "\<not> page_number > int (page_count doc)"
      "load_page doc (PInt (page_number - 1)) = Inr page"
      "int_truediv env dpi 72 = Inl e"
      "t = [FitzOpenFile pdf_path (Inr doc), LoadPage (PInt (page_number - 1)) (Inr page)]"
      "r = Inl e"
  | (render_failed) doc page zoom e where
      "fitz_open_file env pdf_path = Inr doc"
      "\<not> page_number < 1" "\<not> page_number > int (page_count doc)"
      "load_page doc (PInt (page_number - 1)) = Inr page"
      "int_truediv env dpi 72 = Inr zoom"
      "get_pixmap page zoom zoom False = Inl e"
      "t = [FitzOpenFile pdf_path (Inr doc), LoadPage (PInt (page_number - 1)) (Inr page),
            GetPixmap zoom zoom False (Inl e)]"
      "r = Inl e"
  | (save_failed) doc page zoom pix e where
      "fitz_open_file env pdf_path = Inr doc"
      "\<not> page_number < 1" "\<not> page_number > int (page_count doc)"
      "load_page doc (PInt (page_number - 1)) = Inr page"
      "int_truediv env dpi 72 = Inr zoom"
      "get_pixmap page zoom zoom False = Inr pix"
      "save pix output_path = Inl e"
      "t = [FitzOpenFile pdf_path (Inr doc), LoadPage (PInt (page_number - 1)) (Inr page),
            GetPixmap zoom zoom False (Inr pix), PixSave output_path (Inl e)]"
      "r = Inl e"
  | (saved) doc page zoom pix where
      "fitz_open_file env pdf_path = Inr doc"
      "\<not> page_number < 1" "\<not> page_number > int (page_count doc)"
      "load_page doc (PInt (page_number - 1)) = Inr page"
      "int_truediv env dpi 72 = Inr zoom"
      "get_pixmap page zoom zoom False = Inr pix"
      "save pix output_path = Inr ()"
      "t = [FitzOpenFile pdf_path (Inr doc), LoadPage (PInt (page_number - 1)) (Inr page),
            GetPixmap zoom zoom False (Inr pix), PixSave output_path (Inr ()), DocClose]"
      "r = Inr ()"
proof (cases "fitz_open_file env pdf_path")
  case (Inl e)
  with assms have "t = [FitzOpenFile pdf_path (Inl e)]" "r = Inl e"
    by (auto simp: convert_try_def Let_def)
  with Inl show ?thesis by (rule open_failed)
next
  case op: (Inr doc)
  show ?thesis
  proof (cases "page_number < 1 \<or> page_number > int (page_count doc)")
    case True
    with assms op have "t = [FitzOpenFile pdf_path (Inr doc)]"
      "r = Inl (Exn ''ValueError''
                  (invalid_page_message (str_int page_number) (page_count doc)))"
      by (auto simp: convert_try_def Let_def)
    with op True show ?thesis by (rule out_of_range)
  next
    case False
    then have rg: "\<not> page_number < 1" "\<not> page_number > int (page_count doc)"
      by simp_all
    show ?thesis
    proof (cases "load_page doc (PInt (page_number - 1))")
      case (Inl e)
      with assms op rg have
        "t = [FitzOpenFile pdf_path (Inr doc), LoadPage (PInt (page_number - 1)) (Inl e)]"
        "r = Inl e"
        by (auto simp: convert_try_def Let_def)
      with op rg Inl show ?thesis by (rule load_failed)
    next
      case lp: (Inr page)
      show ?thesis
      proof (cases "int_truediv env dpi 72")
        case (Inl e)
        with assms op rg lp have
          "t = [FitzOpenFile pdf_path (Inr doc), LoadPage (PInt (page_number - 1)) (Inr page)]"
          "r = Inl e"
          by (auto simp: convert_try_def Let_def)
        with op rg lp Inl show ?thesis by (rule zoom_failed)
      next
        case zm: (Inr zoom)
        show ?thesis
        proof (cases "get_pixmap page zoom zoom False")
          case (Inl e)
          with assms op rg lp zm have
            "t = [FitzOpenFile pdf_path (Inr doc), LoadPage (PInt (page_number - 1)) (Inr page),
                  GetPixmap zoom zoom False (Inl e)]"
            "r = Inl e"
            by (auto simp: convert_try_def Let_def)
          with op rg lp zm Inl show ?thesis by (rule render_failed)
        next
          case gp: (Inr pix)
          show ?thesis
          proof (cases "save pix output_path")
            case (Inl e)
            with assms op rg lp zm gp have
              "t = [FitzOpenFile pdf_path (Inr doc),
                    LoadPage (PInt (page_number - 1)) (Inr page),
                    GetPixmap zoom zoom False (Inr pix), PixSave output_path (Inl e)]"
              "r = Inl e"
              by (auto simp: convert_try_def Let_def)
            with op rg lp zm gp Inl show ?thesis by (rule save_failed)
          next
            case (Inr u)
            then have sv: "save pix output_path = Inr ()" by simp
            with assms op rg lp zm gp have
              "t = [FitzOpenFile pdf_path (Inr doc),
                    LoadPage (PInt (page_number - 1)) (Inr page),
                    GetPixmap zoom zoom False (Inr pix), PixSave output_path (Inr ()),
                    DocClose]"
              "r = Inr ()"
              by (auto simp: convert_try_def Let_def)
            with op rg lp zm gp sv show ?thesis by (rule saved)
          qed
        qed
      qed
    qed
  qed
qed

lemma convert_log:
  "fst (convert_pdf_page_to_image env pdf_path page_number output_path dpi) =
     fst (convert_try env pdf_path page_number output_path dpi)"
  by (simp add: convert_pdf_page_to_image_def split: prod.splits sum.splits)

lemma convert_status:
  "snd (convert_pdf_page_to_image env pdf_path page_number output_path dpi) =
     (case snd (convert_try env pdf_path page_number output_path dpi) of
        Inl e \<Rightarrow> 1 | Inr u \<Rightarrow> 0)"
  by (simp add: convert_pdf_page_to_image_def split: prod.splits sum.splits)

section \<open>Page numbers out of range\<close>

text \<open>
  Claim C1. When the source of the request resolves to bytes that open as a document and
  the requested page number \<open>p\<close> is below 1 or above the page count, the handler returns
  the 400 response whose message holds \<open>p\<close> and the page count, and the log has no page
  load and no rendering call. The command-line function, in the same situation, raises
  \<open>ValueError\<close> with that message inside its \<open>try\<close> and returns 1, having only
  opened the file.
\<close>

theorem page_out_of_range_rejected:
  "(get_pdf_bytes env event = (t, Got pdf_bytes) \<and>
    fitz_open_stream env pdf_bytes ''pdf'' = Inr doc \<and>
    dict_get event ''pageNumber'' (PInt 1) = PInt p \<and>
    (p < 1 \<or> p > int (page_count doc))
    \<longrightarrow>
    lambda_handler env (PDict event) =
      (t @ [FitzOpen pdf_bytes ''pdf'' (Inr doc)],
       \<lparr>statusCode = 400,
        body = [(''error'',
                 PStr (''Invalid page number: '' @ str_int p @ ''. PDF has ''
                       @ str_nat (page_count doc) @ '' pages.''))]\<rparr>) \<and>
    (\<forall>i x. LoadPage i x \<notin> set (fst (lambda_handler env (PDict event)))) \<and>
    (\<forall>zx zy a x. GetPixmap zx zy a x \<notin> set (fst (lambda_handler env (PDict event)))))
   \<and>
   (fitz_open_file env pdf_path = Inr cdoc \<and> (q < 1 \<or> q > int (page_count cdoc))
    \<longrightarrow>
    convert_try env pdf_path q output_path cdpi =
      ([FitzOpenFile pdf_path (Inr cdoc)],
       Inl (Exn ''ValueError''
              (''Invalid page number: '' @ str_int q @ ''. PDF has ''
               @ str_nat (page_count cdoc) @ '' pages.''))) \<and>
    convert_pdf_page_to_image env pdf_path q output_path cdpi =
      ([FitzOpenFile pdf_path (Inr cdoc)], 1))"
proof (intro conjI impI)
  assume h: "get_pdf_bytes env event = (t, Got pdf_bytes) \<and>
    fitz_open_stream env pdf_bytes ''pdf'' = Inr doc \<and>
    dict_get event ''pageNumber'' (PInt 1) = PInt p \<and>
    (p < 1 \<or> p > int (page_count doc))"
  then have r: "render_page env pdf_bytes (dict_get event ''pageNumber'' (PInt 1))
              (dict_get event ''dpi'' (PInt 150)) =
            ([FitzOpen pdf_bytes ''pdf'' (Inr doc)],
             Inr (invalid_page_response (str_int p) (page_count doc)))"
    by (auto simp: render_page_def)
  from h have g: "get_pdf_bytes env event = (t, Got pdf_bytes)" by simp
  show run: "lambda_handler env (PDict event) =
      (t @ [FitzOpen pdf_bytes ''pdf'' (Inr doc)],
       \<lparr>statusCode = 400,
        body = [(''error'',
                 PStr (''Invalid page number: '' @ str_int p @ ''. PDF has ''
                       @ str_nat (page_count doc) @ '' pages.''))]\<rparr>)"
    using lambda_handler_Got [OF g r]
    by (simp add: invalid_page_response_def invalid_page_message_def)
  show "\<forall>i x. LoadPage i x \<notin> set (fst (lambda_handler env (PDict event)))"
    using get_pdf_bytes_no_render(1) [OF g] by (simp add: run)
  show "\<forall>zx zy a x. GetPixmap zx zy a x \<notin> set (fst (lambda_handler env (PDict event)))"
    using get_pdf_bytes_no_render(2) [OF g] by (simp add: run)
next
  assume h: "fitz_open_file env pdf_path = Inr cdoc \<and> (q < 1 \<or> q > int (page_count cdoc))"
  then show tr: "convert_try env pdf_path q output_path cdpi =
      ([FitzOpenFile pdf_path (Inr cdoc)],
       Inl (Exn ''ValueError''
              (''Invalid page number: '' @ str_int q @ ''. PDF has ''
               @ str_nat (page_count cdoc) @ '' pages.'')))"
    by (auto simp: convert_try_def invalid_page_message_def)
  show "convert_pdf_page_to_image env pdf_path q output_path cdpi =
      ([FitzOpenFile pdf_path (Inr cdoc)], 1)"
    by (simp add: convert_pdf_page_to_image_def tr)
qed

theorem page_out_of_range_rejected_witness:
  "get_pdf_bytes sample_env [(''pdfBase64'', PStr ''JVBERg==''), (''pageNumber'', PInt 5)]
     = ([], Got sample_pdf) \<and>
   fitz_open_stream sample_env sample_pdf ''pdf'' = Inr sample_doc \<and>
   dict_get [(''pdfBase64'', PStr ''JVBERg==''), (''pageNumber'', PInt 5)] ''pageNumber''
     (PInt 1) = (PInt 5 :: rat pyval) \<and>
   (5 :: int) > int (page_count sample_doc) \<and>
   lambda_handler sample_env
     (PDict [(''pdfBase64'', PStr ''JVBERg==''), (''pageNumber'', PInt 5)]) =
     ([FitzOpen sample_pdf ''pdf'' (Inr sample_doc)],
      \<lparr>statusCode = 400,
       body = [(''error'', PStr ''Invalid page number: 5. PDF has 2 pages.'')]\<rparr>) \<and>
   fitz_open_file sample_env ''report.pdf'' = Inr sample_doc \<and>
   (0 :: int) < 1 \<and>
   convert_try sample_env ''report.pdf'' 0 ''out.png'' 150 =
     ([FitzOpenFile ''report.pdf'' (Inr sample_doc)],
      Inl (Exn ''ValueError'' ''Invalid page number: 0. PDF has 2 pages.'')) \<and>
   convert_pdf_page_to_image sample_env ''report.pdf'' 0 ''out.png'' 150 =
     ([FitzOpenFile ''report.pdf'' (Inr sample_doc)], 1)"
proof -
  have h1: "get_pdf_bytes sample_env
              [(''pdfBase64'', PStr ''JVBERg==''), (''pageNumber'', PInt 5)]
            = ([], Got sample_pdf)"
    by (simp add: get_pdf_bytes_def b64decode_def a2b_base64_def is_ascii_def a2b_val_def
          table_b2a_base64_def sample_pdf_def)
  have h2: "fitz_open_stream sample_env sample_pdf ''pdf'' = Inr sample_doc"
    by (simp add: sample_env_def)
  have h3: "dict_get [(''pdfBase64'', PStr ''JVBERg==''), (''pageNumber'', PInt 5)]
              ''pageNumber'' (PInt 1) = (PInt 5 :: rat pyval)"
    by (simp add: dict_get_def)
  have h4: "(5 :: int) > int (page_count sample_doc)"
    by (simp add: sample_doc_def)
  have h5: "fitz_open_file sample_env ''report.pdf'' = Inr sample_doc"
    by (simp add: sample_env_def)
  have pc: "page_count sample_doc = 2"
    by (simp add: sample_doc_def)
  have s5: "str_int 5 = ''5''" "str_int 0 = ''0''" "str_nat 2 = ''2''"
    by (simp_all add: str_int_def str_nat.simps digit_char_def)
  show ?thesis
    using page_out_of_range_rejected
      [of sample_env "[(''pdfBase64'', PStr ''JVBERg==''), (''pageNumber'', PInt 5)]"
          "[]" sample_pdf sample_doc 5 "''report.pdf''" sample_doc 0 "''out.png''" 150]
      h1 h2 h3 h4 h5
    by (simp add: pc s5)
qed

section \<open>Requests without a source\<close>

text \<open>
  Claim C2. A request that has neither both of \<open>s3Bucket\<close> and \<open>s3Key\<close> nor
  \<open>pdfBase64\<close> gets the 400 response with the message that a source is required, and
  the log is empty: nothing was fetched, opened or rendered.
\<close>

theorem missing_source_rejected:
  "\<not> (map_of event ''s3Bucket'' \<noteq> None \<and> map_of event ''s3Key'' \<noteq> None) \<Longrightarrow>
   map_of event ''pdfBase64'' = None \<Longrightarrow>
   lambda_handler env (PDict event) =
     ([], \<lparr>statusCode = 400,
           body = [(''error'', PStr ''s3Bucket+s3Key or pdfBase64 is required'')]\<rparr>)"
proof -
  assume a: "\<not> (map_of event ''s3Bucket'' \<noteq> None \<and> map_of event ''s3Key'' \<noteq> None)"
    and b: "map_of event ''pdfBase64'' = None"
  have "get_pdf_bytes env event = ([], Returned missing_source_response)"
    using a b by (auto simp: get_pdf_bytes_def split: option.splits)
  then show ?thesis
    by (simp add: lambda_handler_Returned missing_source_response_def)
qed

theorem missing_source_rejected_witness:
  "\<not> (map_of [(''s3Bucket'', PStr ''docs''), (''pageNumber'', PInt 1)] ''s3Bucket'' \<noteq> None \<and>
      map_of [(''s3Bucket'', PStr ''docs''), (''pageNumber'', PInt (1::int))] ''s3Key'' \<noteq> None) \<and>
   map_of [(''s3Bucket'', PStr ''docs''), (''pageNumber'', PInt (1::int))] ''pdfBase64'' = None \<and>
   lambda_handler sample_env (PDict [(''s3Bucket'', PStr ''docs''), (''pageNumber'', PInt 1)]) =
     ([], \<lparr>statusCode = 400,
           body = [(''error'', PStr ''s3Bucket+s3Key or pdfBase64 is required'')]\<rparr>)"
  using missing_source_rejected
    [of "[(''s3Bucket'', PStr ''docs''), (''pageNumber'', PInt 1)]" sample_env]
  by simp

section \<open>Size and round trip of a successful conversion\<close>

text \<open>
  Claim C3. When the handler answers 200, the log holds the rendering call that returned
  a pixmap and the one PNG encoding of that pixmap; the \<open>size\<close> field of the body is
  the length of those PNG bytes, and decoding the \<open>imageBase64\<close> field with
  \<open>b64decode\<close> gives back exactly those bytes.
\<close>

theorem success_size_and_round_trip:
  "lambda_handler env event = (t, r) \<Longrightarrow> statusCode r = 200 \<Longrightarrow>
   \<exists>zoom pix png_bytes.
     GetPixmap zoom zoom False (Inr pix) \<in> set t \<and>
     tobytes pix ''png'' = Inr png_bytes \<and>
     ToBytes ''png'' (Inr png_bytes) \<in> set t \<and>
     (\<forall>fmt x. ToBytes fmt x \<in> set t \<longrightarrow> x = Inr png_bytes) \<and>
     map_of (body r) ''size'' = Some (PInt (int (length png_bytes))) \<and>
     (\<exists>v. map_of (body r) ''imageBase64'' = Some v \<and> b64decode v = Inr png_bytes)"
proof (erule lambda_handler_200, assumption)
  fix d t1 pdf_bytes doc p page zoom pix png_bytes
  assume g: "get_pdf_bytes env d = (t1, Got pdf_bytes)"
    and px: "tobytes pix ''png'' = Inr png_bytes"
    and t: "t = t1 @ [FitzOpen pdf_bytes ''pdf'' (Inr doc), LoadPage (num_sub env p 1) (Inr page),
            GetPixmap zoom zoom False (Inr pix), ToBytes ''png'' (Inr png_bytes), DocClose]"
    and r: "r = \<lparr>statusCode = 200,
            body = [(''imageBase64'', PStr (b64encode png_bytes)),
                    (''width'', PInt (width pix)), (''height'', PInt (height pix)),
                    (''size'', PInt (int (length png_bytes))),
                    (''pageNumber'', dict_get d ''pageNumber'' (PInt 1)),
                    (''dpi'', dict_get d ''dpi'' (PInt 150))]\<rparr>"
  have no: "\<And>fmt x. ToBytes fmt x \<notin> set t1"
    using get_pdf_bytes_no_render(3) [OF g] .
  have "GetPixmap zoom zoom False (Inr pix) \<in> set t" "ToBytes ''png'' (Inr png_bytes) \<in> set t"
    by (simp_all add: t)
  moreover have "\<forall>fmt x. ToBytes fmt x \<in> set t \<longrightarrow> x = Inr png_bytes"
    using no by (auto simp: t)
  moreover have "map_of (body r) ''size'' = Some (PInt (int (length png_bytes)))"
    by (simp add: r)
  moreover have "map_of (body r) ''imageBase64'' = Some (PStr (b64encode png_bytes))"
    by (simp add: r)
  ultimately show ?thesis
    using px b64decode_b64encode [of png_bytes] by blast
qed

theorem success_size_and_round_trip_witness:
  "statusCode (snd (lambda_handler sample_env (PDict [(''pdfBase64'', PStr ''JVBERg=='')]))) = 200 \<and>
   (\<exists>zoom pix png_bytes.
     GetPixmap zoom zoom False (Inr pix)
       \<in> set (fst (lambda_handler sample_env (PDict [(''pdfBase64'', PStr ''JVBERg=='')]))) \<and>
     tobytes pix ''png'' = Inr png_bytes \<and>
     ToBytes ''png'' (Inr png_bytes)
       \<in> set (fst (lambda_handler sample_env (PDict [(''pdfBase64'', PStr ''JVBERg=='')]))) \<and>
     (\<forall>fmt x. ToBytes fmt x
         \<in> set (fst (lambda_handler sample_env (PDict [(''pdfBase64'', PStr ''JVBERg=='')])))
       \<longrightarrow> x = Inr png_bytes) \<and>
     map_of (body (snd (lambda_handler sample_env (PDict [(''pdfBase64'', PStr ''JVBERg=='')]))))
       ''size'' = Some (PInt (int (length png_bytes))) \<and>
     (\<exists>v. map_of (body (snd (lambda_handler sample_env
                                (PDict [(''pdfBase64'', PStr ''JVBERg=='')]))))
            ''imageBase64'' = Some v \<and> b64decode v = Inr png_bytes))"
proof -
  have h: "statusCode (snd (lambda_handler sample_env
             (PDict [(''pdfBase64'', PStr ''JVBERg=='')]))) = 200"
    by (simp add: eval_defs sample_defs Let_def)
  show ?thesis
    using h success_size_and_round_trip [OF surjective_pairing h] by simp
qed

section \<open>The zoom factor\<close>

lemma render_page_zoom:
  assumes "render_page env pdf_bytes page_number dpi = (t, r)"
      and "GetPixmap zx zy alpha x \<in> set t"
  shows "zx = zy \<and> alpha = False \<and> py_truediv env dpi 72 = Inr zx"
  using assms(1)
  by (cases rule: render_page_cases) (use assms(2) in auto)

lemma lambda_handler_zoom:
  assumes "GetPixmap zx zy alpha x \<in> set (fst (lambda_handler env (PDict event)))"
  shows "zx = zy \<and> alpha = False \<and>
         py_truediv env (dict_get event ''dpi'' (PInt 150)) 72 = Inr zx"
proof -
  obtain t r where lh: "lambda_handler env (PDict event) = (t, r)"
    by (cases "lambda_handler env (PDict event)")
  with assms have mem: "GetPixmap zx zy alpha x \<in> set t" by simp
  from lh show ?thesis
  proof (cases rule: lambda_handler_cases)
    case not_dict
    with mem show ?thesis by simp
  next
    case (source_raised d e)
    with mem get_pdf_bytes_no_render(2) [OF source_raised(2)] show ?thesis by blast
  next
    case (source_missing d)
    with mem get_pdf_bytes_no_render(2) [OF source_missing(2)] show ?thesis by blast
  next
    case (rendering d t1 pdf_bytes t2 res)
    from mem rendering(4) get_pdf_bytes_no_render(2) [OF rendering(2)]
    have "GetPixmap zx zy alpha x \<in> set t2" by auto
    from render_page_zoom [OF rendering(3) this] rendering(1) show ?thesis by simp
  qed
qed

lemma convert_zoom:
  assumes "GetPixmap zx zy alpha x
             \<in> set (fst (convert_pdf_page_to_image env pdf_path page_number output_path dpi))"
  shows "zx = zy \<and> alpha = False \<and> int_truediv env dpi 72 = Inr zx"
proof -
  obtain t r where ct: "convert_try env pdf_path page_number output_path dpi = (t, r)"
    by (cases "convert_try env pdf_path page_number output_path dpi")
  with assms have mem: "GetPixmap zx zy alpha x \<in> set t" by (simp add: convert_log)
  from ct show ?thesis
    by (cases rule: convert_try_cases) (use mem in auto)
qed

lemma py_truediv_int: "py_truediv env (PInt n) k = int_truediv env n k"
  by (simp add: py_truediv_def)

text \<open>
  Claim C4. Every rendering call in the log of the handler has the same value on both
  axes of the matrix, and that value is the true division of the resolved \<open>dpi\<close> by 72
  (the integer true division when \<open>dpi\<close> is an integer); the same holds for the
  command-line function with its integer \<open>dpi\<close>. A conversion that succeeds (status
  200, return code 0) has made such a call. The float quotient itself is the
  environment's: only which division is asked for, and where its result goes, is stated.
\<close>

theorem zoom_is_dpi_over_72:
  "(\<forall>zx zy alpha x.
      GetPixmap zx zy alpha x \<in> set (fst (lambda_handler env (PDict event))) \<longrightarrow>
        zx = zy \<and>
        py_truediv env (dict_get event ''dpi'' (PInt 150)) 72 = Inr zx \<and>
        (\<forall>n. dict_get event ''dpi'' (PInt 150) = PInt n \<longrightarrow> int_truediv env n 72 = Inr zx)) \<and>
   (statusCode (snd (lambda_handler env (PDict event))) = 200 \<longrightarrow>
      (\<exists>zoom x. GetPixmap zoom zoom False x \<in> set (fst (lambda_handler env (PDict event))))) \<and>
   (\<forall>zx zy alpha x.
      GetPixmap zx zy alpha x
        \<in> set (fst (convert_pdf_page_to_image env pdf_path page_number output_path dpi)) \<longrightarrow>
        zx = zy \<and> int_truediv env dpi 72 = Inr zx) \<and>
   (snd (convert_pdf_page_to_image env pdf_path page_number output_path dpi) = 0 \<longrightarrow>
      (\<exists>zoom x. GetPixmap zoom zoom False x
         \<in> set (fst (convert_pdf_page_to_image env pdf_path page_number output_path dpi))))"
proof (intro conjI allI impI)
  fix zx zy alpha x
  assume mem: "GetPixmap zx zy alpha x \<in> set (fst (lambda_handler env (PDict event)))"
  from lambda_handler_zoom [OF mem]
  show "zx = zy" "py_truediv env (dict_get event ''dpi'' (PInt 150)) 72 = Inr zx"
    by simp_all
  fix n
  assume "dict_get event ''dpi'' (PInt 150) = PInt n"
  with lambda_handler_zoom [OF mem] show "int_truediv env n 72 = Inr zx"
    by (simp add: py_truediv_int)
next
  assume st: "statusCode (snd (lambda_handler env (PDict event))) = 200"
  have lh: "lambda_handler env (PDict event) =
          (fst (lambda_handler env (PDict event)), snd (lambda_handler env (PDict event)))"
    by simp
  from lh st show "\<exists>zoom x. GetPixmap zoom zoom False x
                     \<in> set (fst (lambda_handler env (PDict event)))"
  proof (rule lambda_handler_200)
    fix t1 :: "'a effect list" and pdf_bytes doc p page zoom pix png_bytes
    assume "fst (lambda_handler env (PDict event)) =
       t1 @ [FitzOpen pdf_bytes ''pdf'' (Inr doc), LoadPage (num_sub env p 1) (Inr page),
             GetPixmap zoom zoom False (Inr pix), ToBytes ''png'' (Inr png_bytes), DocClose]"
    then have "GetPixmap zoom zoom False (Inr pix)
                 \<in> set (fst (lambda_handler env (PDict event)))"
      by simp
    then show ?thesis by blast
  qed
next
  fix zx zy alpha x
  assume mem: "GetPixmap zx zy alpha x
       \<in> set (fst (convert_pdf_page_to_image env pdf_path page_number output_path dpi))"
  from convert_zoom [OF mem] show "zx = zy" "int_truediv env dpi 72 = Inr zx"
    by simp_all
next
  assume ok: "snd (convert_pdf_page_to_image env pdf_path page_number output_path dpi) = 0"
  obtain t r where ct: "convert_try env pdf_path page_number output_path dpi = (t, r)"
    by (cases "convert_try env pdf_path page_number output_path dpi")
  from ct show "\<exists>zoom x. GetPixmap zoom zoom False x
         \<in> set (fst (convert_pdf_page_to_image env pdf_path page_number output_path dpi))"
  proof (cases rule: convert_try_cases)
    case (saved doc page zoom pix)
    then have "GetPixmap zoom zoom False (Inr pix)
        \<in> set (fst (convert_pdf_page_to_image env pdf_path page_number output_path dpi))"
      using ct by (simp add: convert_log)
    then show ?thesis by blast
  qed (use ok ct in \<open>simp_all add: convert_status\<close>)
qed

theorem zoom_is_dpi_over_72_witness:
  "GetPixmap (25 / 6) (25 / 6) False (Inr (sample_pixmap (25 / 6) (25 / 6)))
     \<in> set (fst (lambda_handler sample_env
                   (PDict [(''pdfBase64'', PStr ''JVBERg==''), (''dpi'', PInt 300)]))) \<and>
   dict_get [(''pdfBase64'', PStr ''JVBERg==''), (''dpi'', PInt 300)] ''dpi'' (PInt 150)
     = (PInt 300 :: rat pyval) \<and>
   int_truediv sample_env 300 72 = Inr (25 / 6) \<and>
   GetPixmap (25 / 12) (25 / 12) False (Inr (sample_pixmap (25 / 12) (25 / 12)))
     \<in> set (fst (convert_pdf_page_to_image sample_env ''report.pdf'' 1 ''out.png'' 150)) \<and>
   int_truediv sample_env 150 72 = Inr (25 / 12)"
proof -
  have m1: "GetPixmap (25 / 6) (25 / 6) False (Inr (sample_pixmap (25 / 6) (25 / 6)))
     \<in> set (fst (lambda_handler sample_env
                   (PDict [(''pdfBase64'', PStr ''JVBERg==''), (''dpi'', PInt 300)])))"
    by (simp add: eval_defs sample_defs Let_def)
  have d1: "dict_get [(''pdfBase64'', PStr ''JVBERg==''), (''dpi'', PInt 300)] ''dpi''
              (PInt 150) = (PInt 300 :: rat pyval)"
    by (simp add: dict_get_def)
  have m2: "GetPixmap (25 / 12) (25 / 12) False (Inr (sample_pixmap (25 / 12) (25 / 12)))
     \<in> set (fst (convert_pdf_page_to_image sample_env ''report.pdf'' 1 ''out.png'' 150))"
    by (simp add: eval_defs sample_defs Let_def)
  note z = zoom_is_dpi_over_72
    [of sample_env "[(''pdfBase64'', PStr ''JVBERg==''), (''dpi'', PInt 300)]"
        "''report.pdf''" 1 "''out.png''" 150]
  from z m1 d1 have a: "int_truediv sample_env 300 72 = Inr (25 / 6)"
    by blast
  from z m2 have b: "int_truediv sample_env 150 72 = Inr (25 / 12)"
    by blast
  from m1 d1 a m2 b show ?thesis by simp
qed


section \<open>Defaults and echo\<close>

lemma dict_get_absent: "map_of d k = None \<Longrightarrow> dict_get d k v = v"
  by (simp add: dict_get_def)

lemma get_pdf_bytes_other_key:
  "k \<noteq> ''s3Bucket'' \<Longrightarrow> k \<noteq> ''s3Key'' \<Longrightarrow> k \<noteq> ''pdfBase64'' \<Longrightarrow>
   get_pdf_bytes env ((k, v) # d) = get_pdf_bytes env d"
  by (auto simp: get_pdf_bytes_def split: option.splits)

lemma lambda_handler_default_page:
  assumes "map_of event ''pageNumber'' = None"
  shows "lambda_handler env (PDict ((''pageNumber'', PInt 1) # event)) =
         lambda_handler env (PDict event)"
proof -
  have "get_pdf_bytes env ((''pageNumber'', PInt 1) # event) = get_pdf_bytes env event"
    by (rule get_pdf_bytes_other_key) simp_all
  moreover have "dict_get ((''pageNumber'', PInt 1) # event) ''pageNumber'' (PInt 1) =
                 dict_get event ''pageNumber'' (PInt 1)"
    using assms by (simp add: dict_get_def)
  moreover have "dict_get ((''pageNumber'', PInt 1) # event) ''dpi'' (PInt 150) =
                 dict_get event ''dpi'' (PInt 150)"
    by (simp add: dict_get_def)
  ultimately show ?thesis
    by (simp add: lambda_handler_def lambda_try_def)
qed

lemma lambda_handler_default_dpi:
  assumes "map_of event ''dpi'' = None"
  shows "lambda_handler env (PDict ((''dpi'', PInt 150) # event)) =
         lambda_handler env (PDict event)"
proof -
  have "get_pdf_bytes env ((''dpi'', PInt 150) # event) = get_pdf_bytes env event"
    by (rule get_pdf_bytes_other_key) simp_all
  moreover have "dict_get ((''dpi'', PInt 150) # event) ''dpi'' (PInt 150) =
                 dict_get event ''dpi'' (PInt 150)"
    using assms by (simp add: dict_get_def)
  moreover have "dict_get ((''dpi'', PInt 150) # event) ''pageNumber'' (PInt 1) =
                 dict_get event ''pageNumber'' (PInt 1)"
    by (simp add: dict_get_def)
  ultimately show ?thesis
    by (simp add: lambda_handler_def lambda_try_def)
qed

lemma lambda_handler_load_index:
  assumes "LoadPage i x \<in> set (fst (lambda_handler env (PDict event)))"
  shows "\<exists>p. as_number (dict_get event ''pageNumber'' (PInt 1)) = Some p \<and> i = num_sub env p 1"
proof -
  obtain t r where lh: "lambda_handler env (PDict event) = (t, r)"
    by (cases "lambda_handler env (PDict event)")
  with assms have mem: "LoadPage i x \<in> set t" by simp
  from lh show ?thesis
  proof (cases rule: lambda_handler_cases)
    case not_dict
    with mem show ?thesis by simp
  next
    case (source_raised d e)
    with mem get_pdf_bytes_no_render(1) [OF source_raised(2)] show ?thesis by blast
  next
    case (source_missing d)
    with mem get_pdf_bytes_no_render(1) [OF source_missing(2)] show ?thesis by blast
  next
    case (rendering d t1 pdf_bytes t2 res)
    from mem rendering(4) get_pdf_bytes_no_render(1) [OF rendering(2)]
    have m2: "LoadPage i x \<in> set t2" by auto
    from rendering(3) have
      "\<exists>p. as_number (dict_get d ''pageNumber'' (PInt 1)) = Some p \<and> i = num_sub env p 1"
      by (cases rule: render_page_cases) (use m2 in auto)
    with rendering(1) show ?thesis by simp
  qed
qed

text \<open>
  Claim C5. A request without \<open>pageNumber\<close> is handled exactly as the same request with
  \<open>pageNumber\<close> 1, and any page it loads has index 0; a request without \<open>dpi\<close> is
  handled exactly as the same request with \<open>dpi\<close> 150, and any rendering call it makes
  has zoom 150 / 72. A 200 response carries the resolved \<open>pageNumber\<close> and \<open>dpi\<close>.
  The script called without a fourth argument converts at 150.
\<close>

theorem defaults_and_echo:
  "(map_of event ''pageNumber'' = None \<longrightarrow>
      lambda_handler env (PDict event) =
        lambda_handler env (PDict ((''pageNumber'', PInt 1) # event)) \<and>
      (\<forall>i x. LoadPage i x \<in> set (fst (lambda_handler env (PDict event))) \<longrightarrow> i = PInt 0)) \<and>
   (map_of event ''dpi'' = None \<longrightarrow>
      lambda_handler env (PDict event) =
        lambda_handler env (PDict ((''dpi'', PInt 150) # event)) \<and>
      (\<forall>zx zy alpha x.
         GetPixmap zx zy alpha x \<in> set (fst (lambda_handler env (PDict event))) \<longrightarrow>
           int_truediv env 150 72 = Inr zx \<and> zy = zx)) \<and>
   (statusCode (snd (lambda_handler env (PDict event))) = 200 \<longrightarrow>
      map_of (body (snd (lambda_handler env (PDict event)))) ''pageNumber'' =
        Some (dict_get event ''pageNumber'' (PInt 1)) \<and>
      map_of (body (snd (lambda_handler env (PDict event)))) ''dpi'' =
        Some (dict_get event ''dpi'' (PInt 150))) \<and>
   (length argv = 4 \<and> int_of_str env (argv ! 2) = Inr p \<longrightarrow>
      main env argv = convert_pdf_page_to_image env (argv ! 1) p (argv ! 3) 150)"
proof (intro conjI allI impI)
  assume a: "map_of event ''pageNumber'' = None"
  show "lambda_handler env (PDict event) =
          lambda_handler env (PDict ((''pageNumber'', PInt 1) # event))"
    using lambda_handler_default_page [OF a, of env] by simp
  fix i x
  assume "LoadPage i x \<in> set (fst (lambda_handler env (PDict event)))"
  from lambda_handler_load_index [OF this] a show "i = PInt 0"
    by (auto simp: dict_get_absent)
next
  assume a: "map_of event ''dpi'' = None"
  show "lambda_handler env (PDict event) =
          lambda_handler env (PDict ((''dpi'', PInt 150) # event))"
    using lambda_handler_default_dpi [OF a, of env] by simp
  fix zx zy alpha x
  assume "GetPixmap zx zy alpha x \<in> set (fst (lambda_handler env (PDict event)))"
  from lambda_handler_zoom [OF this] a
  show "int_truediv env 150 72 = Inr zx" "zy = zx"
    by (simp_all add: dict_get_absent py_truediv_int)
next
  assume st: "statusCode (snd (lambda_handler env (PDict event))) = 200"
  have lh: "lambda_handler env (PDict event) =
          (fst (lambda_handler env (PDict event)), snd (lambda_handler env (PDict event)))"
    by simp
  from lh st have
    "map_of (body (snd (lambda_handler env (PDict event)))) ''pageNumber'' =
        Some (dict_get event ''pageNumber'' (PInt 1)) \<and>
     map_of (body (snd (lambda_handler env (PDict event)))) ''dpi'' =
        Some (dict_get event ''dpi'' (PInt 150))"
  proof (rule lambda_handler_200)
    fix d :: "(string \<times> 'a pyval) list" and pix png_bytes
    assume "PDict event = PDict d"
      and "snd (lambda_handler env (PDict event)) =
        \<lparr>statusCode = 200,
         body = [(''imageBase64'', PStr (b64encode png_bytes)),
                 (''width'', PInt (width pix)), (''height'', PInt (height pix)),
                 (''size'', PInt (int (length png_bytes))),
                 (''pageNumber'', dict_get d ''pageNumber'' (PInt 1)),
                 (''dpi'', dict_get d ''dpi'' (PInt 150))]\<rparr>"
    then show ?thesis by simp
  qed
  then show "map_of (body (snd (lambda_handler env (PDict event)))) ''pageNumber'' =
        Some (dict_get event ''pageNumber'' (PInt 1))"
    and "map_of (body (snd (lambda_handler env (PDict event)))) ''dpi'' =
        Some (dict_get event ''dpi'' (PInt 150))"
    by simp_all
next
  assume "length argv = 4 \<and> int_of_str env (argv ! 2) = Inr p"
  then show "main env argv = convert_pdf_page_to_image env (argv ! 1) p (argv ! 3) 150"
    by (simp add: main_def)
qed

theorem defaults_and_echo_witness:
  "map_of [(''pdfBase64'', PStr ''JVBERg=='' :: rat pyval)] ''pageNumber'' = None \<and>
   map_of [(''pdfBase64'', PStr ''JVBERg=='' :: rat pyval)] ''dpi'' = None \<and>
   statusCode (snd (lambda_handler sample_env (PDict [(''pdfBase64'', PStr ''JVBERg=='')])))
     = 200 \<and>
   LoadPage (PInt 0) (Inr sample_page)
     \<in> set (fst (lambda_handler sample_env (PDict [(''pdfBase64'', PStr ''JVBERg=='')]))) \<and>
   lambda_handler sample_env (PDict [(''pdfBase64'', PStr ''JVBERg=='')]) =
     lambda_handler sample_env
       (PDict [(''pageNumber'', PInt 1), (''pdfBase64'', PStr ''JVBERg=='')]) \<and>
   lambda_handler sample_env (PDict [(''pdfBase64'', PStr ''JVBERg=='')]) =
     lambda_handler sample_env
       (PDict [(''dpi'', PInt 150), (''pdfBase64'', PStr ''JVBERg=='')]) \<and>
   map_of (body (snd (lambda_handler sample_env (PDict [(''pdfBase64'', PStr ''JVBERg=='')]))))
     ''pageNumber'' = Some (PInt 1) \<and>
   map_of (body (snd (lambda_handler sample_env (PDict [(''pdfBase64'', PStr ''JVBERg=='')]))))
     ''dpi'' = Some (PInt 150) \<and>
   length [''convert_pdf.py'', ''report.pdf'', ''1'', ''out.png''] = 4 \<and>
   int_of_str sample_env ([''convert_pdf.py'', ''report.pdf'', ''1'', ''out.png''] ! 2) = Inr 1 \<and>
   main sample_env [''convert_pdf.py'', ''report.pdf'', ''1'', ''out.png''] =
     convert_pdf_page_to_image sample_env ''report.pdf'' 1 ''out.png'' 150"
proof -
  have h1: "map_of [(''pdfBase64'', PStr ''JVBERg=='' :: rat pyval)] ''pageNumber'' = None"
    and h2: "map_of [(''pdfBase64'', PStr ''JVBERg=='' :: rat pyval)] ''dpi'' = None"
    by simp_all
  have h3: "statusCode (snd (lambda_handler sample_env
              (PDict [(''pdfBase64'', PStr ''JVBERg=='')]))) = 200"
    by (simp add: eval_defs sample_defs Let_def)
  have h4: "LoadPage (PInt 0) (Inr sample_page)
     \<in> set (fst (lambda_handler sample_env (PDict [(''pdfBase64'', PStr ''JVBERg=='')])))"
    by (simp add: eval_defs sample_defs Let_def)
  have h5: "length [''convert_pdf.py'', ''report.pdf'', ''1'', ''out.png''] = 4 \<and>
    int_of_str sample_env ([''convert_pdf.py'', ''report.pdf'', ''1'', ''out.png''] ! 2) = Inr 1"
    by (simp add: sample_env_def)
  have g: "dict_get [(''pdfBase64'', PStr ''JVBERg=='' :: rat pyval)] ''pageNumber'' (PInt 1)
             = PInt 1"
     "dict_get [(''pdfBase64'', PStr ''JVBERg=='' :: rat pyval)] ''dpi'' (PInt 150) = PInt 150"
    by (simp_all add: dict_get_def)
  note th = defaults_and_echo
        [of "[(''pdfBase64'', PStr ''JVBERg=='')]" sample_env
            "[''convert_pdf.py'', ''report.pdf'', ''1'', ''out.png'']" 1]
  from th h1 have c1: "lambda_handler sample_env (PDict [(''pdfBase64'', PStr ''JVBERg=='')]) =
     lambda_handler sample_env
       (PDict [(''pageNumber'', PInt 1), (''pdfBase64'', PStr ''JVBERg=='')])"
    by blast
  from th h2 have c2: "lambda_handler sample_env (PDict [(''pdfBase64'', PStr ''JVBERg=='')]) =
     lambda_handler sample_env
       (PDict [(''dpi'', PInt 150), (''pdfBase64'', PStr ''JVBERg=='')])"
    by blast
  from th h3 have c3:
    "map_of (body (snd (lambda_handler sample_env
        (PDict [(''pdfBase64'', PStr ''JVBERg=='')])))) ''pageNumber'' = Some (PInt 1)"
    "map_of (body (snd (lambda_handler sample_env
        (PDict [(''pdfBase64'', PStr ''JVBERg=='')])))) ''dpi'' = Some (PInt 150)"
    unfolding g by blast+
  from th h5 have c4: "main sample_env [''convert_pdf.py'', ''report.pdf'', ''1'', ''out.png''] =
     convert_pdf_page_to_image sample_env ''report.pdf'' 1 ''out.png'' 150"
    by simp
  from h1 h2 h3 h4 c1 c2 c3 h5 c4 show ?thesis
    by blast
qed

section \<open>Payloads that do not decode\<close>

lemma a2b_loop_error_type:
  "a2b_loop cs quad_pos leftchar pads out = Inl e \<Longrightarrow> etype e = ''Error''"
proof (induction cs quad_pos leftchar pads out rule: a2b_loop.induct)
  case (1 quad_pos leftchar pads out)
  then show ?case by (auto split: if_splits)
next
  case (2 c cs quad_pos leftchar pads out)
  show ?case
  proof (cases "c = CHR ''=''")
    case True
    with 2 show ?thesis by (auto split: if_splits)
  next
    case False
    show ?thesis
    proof (cases "a2b_val c")
      case None
      with 2 False show ?thesis by simp
    next
      case (Some this_ch)
      with 2(3-6) [OF False Some] 2(7) False show ?thesis
        by (auto split: if_splits)
    qed
  qed
qed

lemma b64decode_error_type:
  "b64decode v = Inl e \<Longrightarrow> etype e \<in> {''Error'', ''ValueError'', ''TypeError''}"
  by (cases v) (auto simp: b64decode_def a2b_base64_def split: if_splits
                     dest: a2b_loop_error_type)

lemma lambda_handler_decode_failed:
  assumes "map_of event ''s3Bucket'' = None \<or> map_of event ''s3Key'' = None"
      and "map_of event ''pdfBase64'' = Some v" and "b64decode v = Inl e"
  shows "lambda_handler env (PDict event) = ([], error_response e)"
proof -
  have "get_pdf_bytes env event = ([], Raised e)"
    using assms by (auto simp: get_pdf_bytes_def split: option.splits)
  then show ?thesis by (rule lambda_handler_Raised)
qed

lemma lambda_handler_missing:
  assumes "map_of event ''s3Bucket'' = None \<or> map_of event ''s3Key'' = None"
      and "map_of event ''pdfBase64'' = None"
  shows "lambda_handler env (PDict event) = ([], missing_source_response)"
proof -
  have "get_pdf_bytes env event = ([], Returned missing_source_response)"
    using assms by (auto simp: get_pdf_bytes_def split: option.splits)
  then show ?thesis by (rule lambda_handler_Returned)
qed

text \<open>
  Claim C6, as stated, fails: the payload is read only when the request does not carry
  both \<open>s3Bucket\<close> and \<open>s3Key\<close>. Here is a request with a stored object and the
  payload \<open>abc\<close>, which \<open>b64decode\<close> rejects: it is converted from the stored object
  and answered 200.
\<close>

theorem malformed_payload_counterexample:
  "b64decode (PStr ''abc'' :: rat pyval) = Inl (Exn ''Error'' ''Incorrect padding'') \<and>
   snd (lambda_handler sample_env
          (PDict [(''s3Bucket'', PStr ''docs''), (''s3Key'', PStr ''report.pdf''),
                  (''pdfBase64'', PStr ''abc'')])) =
     \<lparr>statusCode = 200,
      body = [(''imageBase64'', PStr ''iVBORw0=''), (''width'', PInt 1275),
              (''height'', PInt 1650), (''size'', PInt 5), (''pageNumber'', PInt 1),
              (''dpi'', PInt 150)]\<rparr>"
  by (simp add: eval_defs sample_defs Let_def)

text \<open>
  Claim C6, amended. When the request does not carry both \<open>s3Bucket\<close> and \<open>s3Key\<close> and
  \<open>b64decode\<close> raises on its \<open>pdfBase64\<close>, the handler answers 500 with the message
  and the class name of that exception, which is \<open>Error\<close> (of \<open>binascii\<close>),
  \<open>ValueError\<close> or \<open>TypeError\<close>, and nothing was fetched, opened or rendered.
\<close>

theorem malformed_payload_rejected:
  "map_of event ''s3Bucket'' = None \<or> map_of event ''s3Key'' = None \<Longrightarrow>
   map_of event ''pdfBase64'' = Some v \<Longrightarrow> b64decode v = Inl e \<Longrightarrow>
   lambda_handler env (PDict event) =
     ([], \<lparr>statusCode = 500,
           body = [(''error'', PStr (emsg e)), (''type'', PStr (etype e))]\<rparr>) \<and>
   etype e \<in> {''Error'', ''ValueError'', ''TypeError''}"
  using lambda_handler_decode_failed [of event v e env] b64decode_error_type [of v e]
  by (simp add: error_response_def)

theorem malformed_payload_rejected_witness:
  "(map_of [(''pdfBase64'', PStr ''abc'' :: rat pyval)] ''s3Bucket'' = None \<or>
    map_of [(''pdfBase64'', PStr ''abc'' :: rat pyval)] ''s3Key'' = None) \<and>
   map_of [(''pdfBase64'', PStr ''abc'' :: rat pyval)] ''pdfBase64'' = Some (PStr ''abc'') \<and>
   b64decode (PStr ''abc'' :: rat pyval) = Inl (Exn ''Error'' ''Incorrect padding'') \<and>
   lambda_handler sample_env (PDict [(''pdfBase64'', PStr ''abc'')]) =
     ([], \<lparr>statusCode = 500,
           body = [(''error'', PStr ''Incorrect padding''), (''type'', PStr ''Error'')]\<rparr>)"
proof -
  have h1: "map_of [(''pdfBase64'', PStr ''abc'' :: rat pyval)] ''s3Bucket'' = None \<or>
    map_of [(''pdfBase64'', PStr ''abc'' :: rat pyval)] ''s3Key'' = None"
    by simp
  have h2: "map_of [(''pdfBase64'', PStr ''abc'' :: rat pyval)] ''pdfBase64''
              = Some (PStr ''abc'')"
    by simp
  have h3: "b64decode (PStr ''abc'' :: rat pyval) = Inl (Exn ''Error'' ''Incorrect padding'')"
    by (simp add: b64decode_def a2b_base64_def is_ascii_def a2b_val_def table_b2a_base64_def)
  from malformed_payload_rejected [OF h1 h2 h3, of sample_env] h1 h2 h3
  show ?thesis by simp
qed

section \<open>One source or two\<close>

lemma map_of_filter_other:
  "P k \<Longrightarrow> map_of (filter (\<lambda>kv. P (fst kv)) d) k = map_of d k"
  by (induction d) auto

lemma dict_get_filter_other:
  "P k \<Longrightarrow> dict_get (filter (\<lambda>kv. P (fst kv)) d) k v = dict_get d k v"
  by (simp add: dict_get_def map_of_filter_other)

lemma lambda_handler_cong:
  assumes "get_pdf_bytes env d' = get_pdf_bytes env d"
      and "dict_get d' ''pageNumber'' (PInt 1) = dict_get d ''pageNumber'' (PInt 1)"
      and "dict_get d' ''dpi'' (PInt 150) = dict_get d ''dpi'' (PInt 150)"
  shows "lambda_handler env (PDict d') = lambda_handler env (PDict d)"
  using assms by (simp add: lambda_handler_def lambda_try_def)

lemma get_pdf_bytes_fetch:
  "map_of d ''s3Bucket'' = Some b \<Longrightarrow> map_of d ''s3Key'' = Some k \<Longrightarrow>
   get_pdf_bytes env d =
     ([S3GetObject b k (s3_get_object env b k)],
      case s3_get_object env b k of Inl e \<Rightarrow> Raised e | Inr pdf_bytes \<Rightarrow> Got pdf_bytes)"
  by (simp add: get_pdf_bytes_def Let_def)

lemma get_pdf_bytes_no_fetch:
  "map_of d ''s3Bucket'' = None \<or> map_of d ''s3Key'' = None \<Longrightarrow>
   get_pdf_bytes env d =
     (case map_of d ''pdfBase64'' of
        Some s \<Rightarrow> ([], case b64decode s of Inl e \<Rightarrow> Raised e | Inr pdf_bytes \<Rightarrow> Got pdf_bytes)
      | None \<Rightarrow> ([], Returned missing_source_response))"
  by (auto simp: get_pdf_bytes_def split: option.splits)

text \<open>
  Claim C7, as stated, fails: a request that carries both an object-storage location and
  a payload is not rejected. Here is such a request, each source valid on its own,
  answered 200.
\<close>

theorem both_sources_counterexample:
  "map_of [(''s3Bucket'', PStr ''docs''), (''s3Key'', PStr ''report.pdf''),
           (''pdfBase64'', PStr ''JVBERg=='' :: rat pyval)] ''s3Bucket'' = Some (PStr ''docs'') \<and>
   map_of [(''s3Bucket'', PStr ''docs''), (''s3Key'', PStr ''report.pdf''),
           (''pdfBase64'', PStr ''JVBERg=='' :: rat pyval)] ''s3Key''
     = Some (PStr ''report.pdf'') \<and>
   map_of [(''s3Bucket'', PStr ''docs''), (''s3Key'', PStr ''report.pdf''),
           (''pdfBase64'', PStr ''JVBERg=='' :: rat pyval)] ''pdfBase64''
     = Some (PStr ''JVBERg=='') \<and>
   b64decode (PStr ''JVBERg=='' :: rat pyval) = Inr sample_pdf \<and>
   statusCode (snd (lambda_handler sample_env
          (PDict [(''s3Bucket'', PStr ''docs''), (''s3Key'', PStr ''report.pdf''),
                  (''pdfBase64'', PStr ''JVBERg=='')]))) = 200"
  by (simp add: eval_defs sample_defs Let_def)

text \<open>
  Claim C7, amended. A request with no source is rejected with the 400 response. A request
  with both \<open>s3Bucket\<close> and \<open>s3Key\<close> starts with the storage read and is handled
  exactly as the same request without \<open>pdfBase64\<close>: the location wins and the payload
  is never looked at.
\<close>

theorem source_resolution:
  "((map_of event ''s3Bucket'' = None \<or> map_of event ''s3Key'' = None) \<and>
    map_of event ''pdfBase64'' = None \<longrightarrow>
      lambda_handler env (PDict event) =
        ([], \<lparr>statusCode = 400,
              body = [(''error'', PStr ''s3Bucket+s3Key or pdfBase64 is required'')]\<rparr>)) \<and>
   (map_of event ''s3Bucket'' = Some b \<and> map_of event ''s3Key'' = Some k \<longrightarrow>
      lambda_handler env (PDict event) =
        lambda_handler env (PDict (filter (\<lambda>kv. fst kv \<noteq> ''pdfBase64'') event)) \<and>
      (\<exists>t. fst (lambda_handler env (PDict event)) =
             S3GetObject b k (s3_get_object env b k) # t))"
proof (intro conjI impI)
  assume "(map_of event ''s3Bucket'' = None \<or> map_of event ''s3Key'' = None) \<and>
    map_of event ''pdfBase64'' = None"
  then show "lambda_handler env (PDict event) =
        ([], \<lparr>statusCode = 400,
              body = [(''error'', PStr ''s3Bucket+s3Key or pdfBase64 is required'')]\<rparr>)"
    using lambda_handler_missing [of event env] by (simp add: missing_source_response_def)
next
  assume a: "map_of event ''s3Bucket'' = Some b \<and> map_of event ''s3Key'' = Some k"
  let ?d = "filter (\<lambda>kv. fst kv \<noteq> ''pdfBase64'') event"
  have m: "map_of ?d ''s3Bucket'' = Some b" "map_of ?d ''s3Key'' = Some k"
    using a by (simp_all add: map_of_filter_other [where P = "\<lambda>k. k \<noteq> ''pdfBase64''"])
  have g: "get_pdf_bytes env ?d = get_pdf_bytes env event"
    using a m by (simp add: get_pdf_bytes_fetch)
  show "lambda_handler env (PDict event) = lambda_handler env (PDict ?d)"
    by (rule lambda_handler_cong [symmetric, OF g])
       (simp_all add: dict_get_filter_other [where P = "\<lambda>k. k \<noteq> ''pdfBase64''"])
  from a have gf: "fst (get_pdf_bytes env event) = [S3GetObject b k (s3_get_object env b k)]"
    by (simp add: get_pdf_bytes_fetch)
  show "\<exists>t. fst (lambda_handler env (PDict event)) =
             S3GetObject b k (s3_get_object env b k) # t"
    using gf
    by (cases "get_pdf_bytes env event")
       (auto simp: lambda_handler_def lambda_try_def split: source.splits prod.splits sum.splits)
qed

theorem source_resolution_witness:
  "map_of [(''s3Bucket'', PStr ''docs''), (''s3Key'', PStr ''report.pdf''),
           (''pdfBase64'', PStr ''abc'' :: rat pyval)] ''s3Bucket'' = Some (PStr ''docs'') \<and>
   map_of [(''s3Bucket'', PStr ''docs''), (''s3Key'', PStr ''report.pdf''),
           (''pdfBase64'', PStr ''abc'' :: rat pyval)] ''s3Key'' = Some (PStr ''report.pdf'') \<and>
   lambda_handler sample_env
     (PDict [(''s3Bucket'', PStr ''docs''), (''s3Key'', PStr ''report.pdf''),
             (''pdfBase64'', PStr ''abc'')]) =
   lambda_handler sample_env
     (PDict [(''s3Bucket'', PStr ''docs''), (''s3Key'', PStr ''report.pdf'')]) \<and>
   (map_of [(''dpi'', PInt 150 :: rat pyval)] ''s3Bucket'' = None \<or>
    map_of [(''dpi'', PInt 150 :: rat pyval)] ''s3Key'' = None) \<and>
   map_of [(''dpi'', PInt 150 :: rat pyval)] ''pdfBase64'' = None \<and>
   lambda_handler sample_env (PDict [(''dpi'', PInt 150)]) =
     ([], \<lparr>statusCode = 400,
           body = [(''error'', PStr ''s3Bucket+s3Key or pdfBase64 is required'')]\<rparr>)"
proof -
  let ?e = "[(''s3Bucket'', PStr ''docs''), (''s3Key'', PStr ''report.pdf''),
             (''pdfBase64'', PStr ''abc'' :: rat pyval)]"
  have h1: "map_of ?e ''s3Bucket'' = Some (PStr ''docs'') \<and>
            map_of ?e ''s3Key'' = Some (PStr ''report.pdf'')"
    by simp
  have f: "filter (\<lambda>kv. fst kv \<noteq> ''pdfBase64'') ?e =
             [(''s3Bucket'', PStr ''docs''), (''s3Key'', PStr ''report.pdf'')]"
    by simp
  have h2: "(map_of [(''dpi'', PInt 150 :: rat pyval)] ''s3Bucket'' = None \<or>
             map_of [(''dpi'', PInt 150 :: rat pyval)] ''s3Key'' = None) \<and>
            map_of [(''dpi'', PInt 150 :: rat pyval)] ''pdfBase64'' = None"
    by simp
  from source_resolution [of ?e sample_env "PStr ''docs''" "PStr ''report.pdf''"] h1
  have c1: "lambda_handler sample_env (PDict ?e) =
            lambda_handler sample_env
              (PDict [(''s3Bucket'', PStr ''docs''), (''s3Key'', PStr ''report.pdf'')])"
    unfolding f by blast
  from source_resolution [of "[(''dpi'', PInt 150)]" sample_env] h2
  have c2: "lambda_handler sample_env (PDict [(''dpi'', PInt 150)]) =
     ([], \<lparr>statusCode = 400,
           body = [(''error'', PStr ''s3Bucket+s3Key or pdfBase64 is required'')]\<rparr>)"
    by blast
  show ?thesis
    by (intro conjI) (rule h1 [THEN conjunct1] h1 [THEN conjunct2] c1 h2 [THEN conjunct1]
          h2 [THEN conjunct2] c2)+
qed

section \<open>Nothing escapes the handler\<close>







section \<open>Half an object-storage location\<close>

lemma render_page_no_fetch:
  assumes "render_page env pdf_bytes page_number dpi = (t, r)"
  shows "S3GetObject b k x \<notin> set t"
  using assms by (cases rule: render_page_cases) simp_all

lemma lambda_handler_no_fetch:
  assumes "map_of event ''s3Bucket'' = None \<or> map_of event ''s3Key'' = None"
  shows "S3GetObject b k x \<notin> set (fst (lambda_handler env (PDict event)))"
proof -
  obtain t r where lh: "lambda_handler env (PDict event) = (t, r)"
    by (cases "lambda_handler env (PDict event)")
  have g: "fst (get_pdf_bytes env event) = []"
    using assms by (simp add: get_pdf_bytes_no_fetch split: option.splits)
  from lh have "S3GetObject b k x \<notin> set t"
  proof (cases rule: lambda_handler_cases)
    case not_dict
    then show ?thesis by simp
  next
    case (source_raised d e)
    with g show ?thesis by simp
  next
    case (source_missing d)
    with g show ?thesis by simp
  next
    case (rendering d t1 pdf_bytes t2 res)
    with g render_page_no_fetch [OF rendering(3), of b k x] show ?thesis by simp
  qed
  with lh show ?thesis by simp
qed

text \<open>
  Claim C10. A request with exactly one of \<open>s3Bucket\<close> and \<open>s3Key\<close> never reaches the
  storage client; without \<open>pdfBase64\<close> it gets the 400 response for a missing source;
  and in every case it is handled exactly as the same request with neither key.
\<close>

theorem partial_location_is_no_location:
  "(map_of event ''s3Bucket'' = None) \<noteq> (map_of event ''s3Key'' = None) \<Longrightarrow>
   (\<forall>b k x. S3GetObject b k x \<notin> set (fst (lambda_handler env (PDict event)))) \<and>
   (map_of event ''pdfBase64'' = None \<longrightarrow>
      lambda_handler env (PDict event) =
        ([], \<lparr>statusCode = 400,
              body = [(''error'', PStr ''s3Bucket+s3Key or pdfBase64 is required'')]\<rparr>)) \<and>
   lambda_handler env (PDict event) =
     lambda_handler env
       (PDict (filter (\<lambda>kv. fst kv \<noteq> ''s3Bucket'' \<and> fst kv \<noteq> ''s3Key'') event))"
proof -
  assume a: "(map_of event ''s3Bucket'' = None) \<noteq> (map_of event ''s3Key'' = None)"
  then have part: "map_of event ''s3Bucket'' = None \<or> map_of event ''s3Key'' = None"
    by auto
  let ?P = "\<lambda>k. k \<noteq> ''s3Bucket'' \<and> k \<noteq> ''s3Key''"
  let ?d = "filter (\<lambda>kv. ?P (fst kv)) event"
  have "map_of ?d ''s3Bucket'' = None"
    by (induction event) auto
  then have part': "map_of ?d ''s3Bucket'' = None \<or> map_of ?d ''s3Key'' = None"
    by simp
  have pb: "map_of ?d ''pdfBase64'' = map_of event ''pdfBase64''"
    by (rule map_of_filter_other [where P = ?P]) simp
  have g: "get_pdf_bytes env ?d = get_pdf_bytes env event"
    by (simp only: get_pdf_bytes_no_fetch [OF part] get_pdf_bytes_no_fetch [OF part'] pb)
  have eq: "lambda_handler env (PDict ?d) = lambda_handler env (PDict event)"
    by (rule lambda_handler_cong [OF g])
       (simp_all add: dict_get_filter_other [where P = ?P])
  have nf: "\<forall>b k x. S3GetObject b k x \<notin> set (fst (lambda_handler env (PDict event)))"
    using lambda_handler_no_fetch [OF part] by blast
  have ms: "map_of event ''pdfBase64'' = None \<longrightarrow>
      lambda_handler env (PDict event) =
        ([], \<lparr>statusCode = 400,
              body = [(''error'', PStr ''s3Bucket+s3Key or pdfBase64 is required'')]\<rparr>)"
    using lambda_handler_missing [OF part, of env] by (simp add: missing_source_response_def)
  from nf ms eq show ?thesis by simp
qed

theorem partial_location_is_no_location_witness:
  "(map_of [(''s3Bucket'', PStr ''docs''), (''pdfBase64'', PStr ''JVBERg=='' :: rat pyval)]
      ''s3Bucket'' = None) \<noteq>
   (map_of [(''s3Bucket'', PStr ''docs''), (''pdfBase64'', PStr ''JVBERg=='' :: rat pyval)]
      ''s3Key'' = None) \<and>
   lambda_handler sample_env
     (PDict [(''s3Bucket'', PStr ''docs''), (''pdfBase64'', PStr ''JVBERg=='')]) =
   lambda_handler sample_env (PDict [(''pdfBase64'', PStr ''JVBERg=='')]) \<and>
   (map_of [(''s3Key'', PStr ''report.pdf'' :: rat pyval)] ''s3Bucket'' = None) \<noteq>
   (map_of [(''s3Key'', PStr ''report.pdf'' :: rat pyval)] ''s3Key'' = None) \<and>
   map_of [(''s3Key'', PStr ''report.pdf'' :: rat pyval)] ''pdfBase64'' = None \<and>
   lambda_handler sample_env (PDict [(''s3Key'', PStr ''report.pdf'')]) =
     ([], \<lparr>statusCode = 400,
           body = [(''error'', PStr ''s3Bucket+s3Key or pdfBase64 is required'')]\<rparr>)"
proof -
  let ?e1 = "[(''s3Bucket'', PStr ''docs''), (''pdfBase64'', PStr ''JVBERg=='' :: rat pyval)]"
  let ?e2 = "[(''s3Key'', PStr ''report.pdf'' :: rat pyval)]"
  have h1: "(map_of ?e1 ''s3Bucket'' = None) \<noteq> (map_of ?e1 ''s3Key'' = None)"
    by simp
  have h2: "(map_of ?e2 ''s3Bucket'' = None) \<noteq> (map_of ?e2 ''s3Key'' = None)"
    by simp
  have h3: "map_of ?e2 ''pdfBase64'' = None"
    by simp
  have f: "filter (\<lambda>kv. fst kv \<noteq> ''s3Bucket'' \<and> fst kv \<noteq> ''s3Key'') ?e1 =
             [(''pdfBase64'', PStr ''JVBERg=='')]"
    by simp
  note c = conjunct2 [THEN conjunct2]
  from partial_location_is_no_location [OF h1, of sample_env, THEN c]
  have c1: "lambda_handler sample_env (PDict ?e1) =
            lambda_handler sample_env (PDict [(''pdfBase64'', PStr ''JVBERg=='')])"
    unfolding f .
  from partial_location_is_no_location
         [OF h2, of sample_env, THEN conjunct2, THEN conjunct1, THEN mp, OF h3]
  have c2: "lambda_handler sample_env (PDict ?e2) =
     ([], \<lparr>statusCode = 400,
           body = [(''error'', PStr ''s3Bucket+s3Key or pdfBase64 is required'')]\<rparr>)" .
  show ?thesis
    by (intro conjI) (rule h1 c1 h2 h3 c2)+
qed


section \<open>Exit status of the script\<close>









end
